theory Spec2Isabelle
  imports Complex_Main
begin

section \<open>Decoded JSON values and the Python operations the scripts apply to them\<close>

text \<open>
  Both scripts work on whatever \<open>json.load\<close> and \<open>Response.json()\<close> hand them, so the model
  keeps the full shape of a decoded JSON document. A Python \<open>dict\<close> is a list of key/value
  pairs in insertion order (keys of a well-formed dictionary are distinct; a lookup takes the
  first pair with the key). A \<open>float\<close> is a rational, an infinity or NaN: the code only
  compares floats with zero and with integers, tests them for truth and truncates them, and
  Python does all of these on the exact mathematical value. A character is a code point
  below 256.
\<close>

datatype pyfloat = FNaN | FInf bool | FFin rat

datatype json =
    JNull
  | JBool bool
  | JInt int
  | JFloat pyfloat
  | JStr string
  | JArr "json list"
  | JObj "(string \<times> json) list"

datatype pyerror =
    AttributeError
  | TypeError
  | ValueError
  | OverflowError
  | KeyError
  | RuntimeError json
  | HTTPError
  | RequestException
  | JSONDecodeError
  | OSError
  | SystemExit

type_synonym pydict = "(string \<times> json) list"

text \<open>Truth value of an object, as \<open>if x\<close>, \<open>not x\<close> and \<open>x or y\<close> test it.\<close>

fun truthy :: "json \<Rightarrow> bool" where
  "truthy JNull = False"
| "truthy (JBool b) = b"
| "truthy (JInt i) = (i \<noteq> 0)"
| "truthy (JFloat f) = (f \<noteq> FFin 0)"
| "truthy (JStr s) = (s \<noteq> [])"
| "truthy (JArr xs) = (xs \<noteq> [])"
| "truthy (JObj kvs) = (kvs \<noteq> [])"

definition py_or :: "json \<Rightarrow> json \<Rightarrow> json" where
  "py_or a b = (if truthy a then a else b)"

text \<open>\<open>d.get(k)\<close> on a dictionary: the value, or \<open>None\<close> when the key is missing.\<close>

definition dict_get :: "pydict \<Rightarrow> string \<Rightarrow> json" where
  "dict_get d k = (case map_of d k of None \<Rightarrow> JNull | Some v \<Rightarrow> v)"

text \<open>\<open>d.get(k, default)\<close>.\<close>

definition dict_get_default :: "pydict \<Rightarrow> string \<Rightarrow> json \<Rightarrow> json" where
  "dict_get_default d k dflt = (case map_of d k of None \<Rightarrow> dflt | Some v \<Rightarrow> v)"

text \<open>\<open>d[k] = v\<close>: an existing key keeps its place, a new key goes to the end.\<close>

fun dict_set :: "pydict \<Rightarrow> string \<Rightarrow> json \<Rightarrow> pydict" where
  "dict_set [] k v = [(k, v)]"
| "dict_set ((k', v') # d) k v = (if k' = k then (k, v) # d else (k', v') # dict_set d k v)"

text \<open>\<open>d.pop(k, None)\<close>, the popped value dropped.\<close>

definition dict_pop :: "pydict \<Rightarrow> string \<Rightarrow> pydict" where
  "dict_pop d k = filter (\<lambda>kv. fst kv \<noteq> k) d"

definition dict_values :: "pydict \<Rightarrow> json list" where
  "dict_values d = map snd d"

text \<open>\<open>isinstance(v, (int, float)) and v > 0\<close>; \<open>bool\<close> is a subclass of \<open>int\<close>.\<close>

fun float_pos :: "pyfloat \<Rightarrow> bool" where
  "float_pos FNaN = False"
| "float_pos (FInf positive) = positive"
| "float_pos (FFin q) = (0 < q)"

fun positive_number :: "json \<Rightarrow> bool" where
  "positive_number (JBool b) = b"
| "positive_number (JInt i) = (0 < i)"
| "positive_number (JFloat f) = float_pos f"
| "positive_number _ = False"

text \<open>\<open>isinstance(v, str) and v.startswith("http")\<close>.\<close>

fun http_string :: "json \<Rightarrow> bool" where
  "http_string (JStr s) = (take 4 s = ''http'')"
| "http_string _ = False"

section \<open>main.py: the eligibility classifier\<close>

text \<open>
  The body of \<open>is_buyable_or_researchable\<close> once \<open>sdata\<close> is known to be a non-empty
  dictionary, in the order of the source: premium, collectible or special, researchable, the
  price mapping, the flat price fields.
\<close>

definition eligible_fields :: "pydict \<Rightarrow> bool" where
  "eligible_fields d =
     (if dict_get d ''is_premium'' = JBool True then False
      else if truthy (dict_get d ''is_collectible'') \<or> truthy (dict_get d ''is_special'') then False
      else if dict_get d ''is_researchable'' = JBool True then True
      else
        let price = py_or (dict_get d ''price'') (dict_get d ''prices'') in
        if (case price of JObj p \<Rightarrow> p \<noteq> [] \<and> list_ex positive_number (dict_values p) | _ \<Rightarrow> False)
        then True
        else list_ex (\<lambda>k. positive_number (dict_get d k)) [''price_credit'', ''price_gold''])"

text \<open>
  \<open>is_buyable_or_researchable(sdata)\<close>. A falsy argument gives \<open>False\<close>; any other object
  that is not a dictionary has no \<open>get\<close> and the first lookup raises.
\<close>

definition is_buyable_or_researchable :: "json \<Rightarrow> pyerror + bool" where
  "is_buyable_or_researchable sdata =
     (if \<not> truthy sdata then Inr False
      else case sdata of JObj d \<Rightarrow> Inr (eligible_fields d) | _ \<Rightarrow> Inl AttributeError)"

section \<open>Strings, paths and number conversion\<close>

text \<open>\<open>needle in haystack\<close> on two strings.\<close>

definition is_substring :: "string \<Rightarrow> string \<Rightarrow> bool" where
  "is_substring p s = list_ex (\<lambda>i. take (length p) (drop i s) = p) [0..<Suc (length s)]"

text \<open>\<open>s.rfind(c)\<close> for a single character: the last index of \<open>c\<close>, or \<open>-1\<close>.\<close>

fun rfind_from :: "char \<Rightarrow> string \<Rightarrow> int \<Rightarrow> int \<Rightarrow> int" where
  "rfind_from c [] i found = found"
| "rfind_from c (x # xs) i found = rfind_from c xs (i + 1) (if x = c then i else found)"

definition rfind :: "char \<Rightarrow> string \<Rightarrow> int" where
  "rfind c s = rfind_from c s 0 (-1)"

text \<open>
  \<open>os.path.splitext(p)[1]\<close> with POSIX separators: the extension starts at the last dot
  after the last slash, unless the file name before that dot consists of dots only.
\<close>

definition splitext_ext :: "string \<Rightarrow> string" where
  "splitext_ext p =
     (let sepIndex = rfind (CHR ''/'') p; dotIndex = rfind (CHR ''.'') p in
      if dotIndex > sepIndex \<and>
         list_ex (\<lambda>c. c \<noteq> CHR ''.'') (take (nat (dotIndex - (sepIndex + 1))) (drop (nat (sepIndex + 1)) p))
      then drop (nat dotIndex) p
      else [])"

text \<open>\<open>os.path.join(a, b)\<close> with POSIX separators.\<close>

definition path_join :: "string \<Rightarrow> string \<Rightarrow> string" where
  "path_join a b =
     (if take 1 b = ''/'' then b
      else if a = [] \<or> last a = CHR ''/'' then a @ b
      else a @ ''/'' @ b)"

text \<open>Decimal digits of a natural number and \<open>str\<close> of an integer.\<close>

fun dec_nat :: "nat \<Rightarrow> string" where
  "dec_nat n = (if n < 10 then [''0123456789'' ! n] else dec_nat (n div 10) @ [''0123456789'' ! (n mod 10)])"

declare dec_nat.simps [simp del]

definition dec_int :: "int \<Rightarrow> string" where
  "dec_int i = (if i < 0 then ''-'' @ dec_nat (nat (- i)) else dec_nat (nat i))"

text \<open>
  \<open>str(v)\<close>, as an f-string formats a value. The text of a float, a list or a dictionary
  is left to the parameter \<open>other\<close>.
\<close>

fun py_str :: "(json \<Rightarrow> string) \<Rightarrow> json \<Rightarrow> string" where
  "py_str other (JStr s) = s"
| "py_str other (JInt i) = dec_int i"
| "py_str other (JBool b) = (if b then ''True'' else ''False'')"
| "py_str other JNull = ''None''"
| "py_str other v = other v"

text \<open>
  \<open>int(s)\<close> on a string, base ten: white space stripped at both ends, an optional sign, then
  digits in which single underscores may separate two digits. The white space \<open>int\<close> strips
  is tab, line feed, vertical tab, form feed, carriage return and space, and of the code
  points from 128 to 255 the two Unicode spaces, U+0085 and U+00A0. (The limit on the
  number of digits that Python 3.11 added is not part of the model.)
\<close>

definition py_isspace :: "char \<Rightarrow> bool" where
  "py_isspace c = (c \<in> set [CHR 0x09, CHR 0x0A, CHR 0x0B, CHR 0x0C, CHR 0x0D, CHR 0x20, CHR 0x85, CHR 0xA0])"

definition py_strip :: "string \<Rightarrow> string" where
  "py_strip s = rev (dropWhile py_isspace (rev (dropWhile py_isspace s)))"

definition digit_of :: "char \<Rightarrow> int option" where
  "digit_of c = map_of [(CHR ''0'', 0), (CHR ''1'', 1), (CHR ''2'', 2), (CHR ''3'', 3), (CHR ''4'', 4),
                        (CHR ''5'', 5), (CHR ''6'', 6), (CHR ''7'', 7), (CHR ''8'', 8), (CHR ''9'', 9)] c"

fun digits_tail :: "int \<Rightarrow> string \<Rightarrow> int option" where
  "digits_tail acc [] = Some acc"
| "digits_tail acc [c] = (case digit_of c of None \<Rightarrow> None | Some d \<Rightarrow> Some (10 * acc + d))"
| "digits_tail acc (c # c' # cs) =
     (if c = CHR ''_''
      then (case digit_of c' of None \<Rightarrow> None | Some d \<Rightarrow> digits_tail (10 * acc + d) cs)
      else (case digit_of c of None \<Rightarrow> None | Some d \<Rightarrow> digits_tail (10 * acc + d) (c' # cs)))"

definition parse_digits :: "string \<Rightarrow> int option" where
  "parse_digits s =
     (case s of [] \<Rightarrow> None
      | c # cs \<Rightarrow> (case digit_of c of None \<Rightarrow> None | Some d \<Rightarrow> digits_tail d cs))"

definition int_of_string :: "string \<Rightarrow> int option" where
  "int_of_string s =
     (case py_strip s of
        [] \<Rightarrow> None
      | c # cs \<Rightarrow>
          if c = CHR ''+'' then parse_digits cs
          else if c = CHR ''-'' then map_option uminus (parse_digits cs)
          else parse_digits (c # cs))"

text \<open>\<open>int(v)\<close>: truncation towards zero on a float, \<open>0\<close> or \<open>1\<close> on a bool.\<close>

fun py_int :: "json \<Rightarrow> pyerror + int" where
  "py_int (JInt i) = Inr i"
| "py_int (JBool b) = Inr (if b then 1 else 0)"
| "py_int (JFloat FNaN) = Inl ValueError"
| "py_int (JFloat (FInf positive)) = Inl OverflowError"
| "py_int (JFloat (FFin q)) = Inr (if 0 \<le> q then \<lfloor>q\<rfloor> else \<lceil>q\<rceil>)"
| "py_int (JStr s) = (case int_of_string s of None \<Rightarrow> Inl ValueError | Some i \<Rightarrow> Inr i)"
| "py_int _ = Inl TypeError"

text \<open>\<open>page >= v\<close> for an integer \<open>page\<close>; an object that is not a number raises.\<close>

fun int_ge :: "int \<Rightarrow> json \<Rightarrow> pyerror + bool" where
  "int_ge page (JInt n) = Inr (page \<ge> n)"
| "int_ge page (JBool b) = Inr (page \<ge> (if b then 1 else 0))"
| "int_ge page (JFloat FNaN) = Inr False"
| "int_ge page (JFloat (FInf positive)) = Inr (\<not> positive)"
| "int_ge page (JFloat (FFin q)) = Inr (of_int page \<ge> q)"
| "int_ge page _ = Inl TypeError"

text \<open>\<open>"ship_id" in v\<close>: a key of a dictionary, an element of a list, a substring of a string.\<close>

fun has_ship_id :: "json \<Rightarrow> pyerror + bool" where
  "has_ship_id (JObj d) = Inr (''ship_id'' \<in> set (map fst d))"
| "has_ship_id (JArr xs) = Inr (JStr ''ship_id'' \<in> set xs)"
| "has_ship_id (JStr s) = Inr (is_substring ''ship_id'' s)"
| "has_ship_id _ = Inl TypeError"

text \<open>\<open>any("ship_id" in v for v in values)\<close>: stops at the first hit, raises at the first
  value that cannot be searched.\<close>

fun any_has_ship_id :: "json list \<Rightarrow> pyerror + bool" where
  "any_has_ship_id [] = Inr False"
| "any_has_ship_id (v # vs) =
     (case has_ship_id v of
        Inl e \<Rightarrow> Inl e
      | Inr found \<Rightarrow> if found then Inr True else any_has_ship_id vs)"

section \<open>The outside world: files, HTTP, the clock\<close>

text \<open>
  A path names a directory, a JSON document (what \<open>json.dump\<close> wrote or \<open>json.load\<close> would
  read) or raw bytes (the chunks written to an image file). Paths are opaque names. The
  scripts' calls of \<open>requests.get\<close> and \<open>time.sleep\<close> are recorded in order; console output
  is not modelled.
\<close>

datatype fdata = Dir | Doc json | Bytes "string list"

datatype request = ShipsPage int | ShipDetail json | ImageUrl json

datatype event = Get request | Sleep nat

record world =
  files :: "string \<rightharpoonup> fdata"
  events :: "event list"

text \<open>
  What \<open>requests.get\<close> returns: the status code, the decoded body (\<open>None\<close> when
  \<open>Response.json()\<close> raises), the chunks \<open>iter_content\<close> yields and whether the stream ends
  without an exception.
\<close>

record response =
  status_code :: nat
  json_body :: "json option"
  chunks :: "string list"
  stream_ok :: bool

text \<open>
  The environment answers a request given everything requested before (or raises), says
  whether a path can be created or opened for writing, and formats the values \<open>py_str\<close>
  leaves open.
\<close>

record env =
  requests_get :: "event list \<Rightarrow> request \<Rightarrow> pyerror + response"
  can_write :: "string \<Rightarrow> bool"
  repr_other :: "json \<Rightarrow> string"

definition API_KEY :: string where
  "API_KEY = ''352f3820d1e216d1896d0e3d430b829c''"

definition CACHE_FILE :: string where
  "CACHE_FILE = ''ships_cache.json''"

definition IMAGES_DIR :: string where
  "IMAGES_DIR = ''images''"

definition TIERS_DIR :: string where
  "TIERS_DIR = ''tiers''"

definition OUTPUT_DIR :: string where
  "OUTPUT_DIR = ''ships_data''"

text \<open>\<open>REQUEST_DELAY = 0.2\<close> seconds, in milliseconds.\<close>

definition REQUEST_DELAY :: nat where
  "REQUEST_DELAY = 200"

definition log_event :: "event \<Rightarrow> world \<Rightarrow> world" where
  "log_event e w = w\<lparr>events := events w @ [e]\<rparr>"

definition path_exists :: "world \<Rightarrow> string \<Rightarrow> bool" where
  "path_exists w p = (files w p \<noteq> None)"

text \<open>\<open>r.raise_for_status()\<close> raises on a 4xx or 5xx status.\<close>

definition raise_for_status :: "response \<Rightarrow> bool" where
  "raise_for_status r = (400 \<le> status_code r \<and> status_code r < 600)"

text \<open>\<open>open(path, "w")\<close> followed by writing \<open>content\<close>.\<close>

definition write_file :: "env \<Rightarrow> world \<Rightarrow> string \<Rightarrow> fdata \<Rightarrow> pyerror + world" where
  "write_file en w path content =
     (if can_write en path \<and> files w path \<noteq> Some Dir
      then Inr (w\<lparr>files := (files w)(path \<mapsto> content)\<rparr>)
      else Inl OSError)"

text \<open>\<open>os.makedirs(path, exist_ok=True)\<close>.\<close>

definition makedirs_exist_ok :: "env \<Rightarrow> world \<Rightarrow> string \<Rightarrow> pyerror + world" where
  "makedirs_exist_ok en w path =
     (case files w path of
        Some Dir \<Rightarrow> Inr w
      | Some _ \<Rightarrow> Inl OSError
      | None \<Rightarrow> if can_write en path then Inr (w\<lparr>files := (files w)(path \<mapsto> Dir)\<rparr>) else Inl OSError)"

section \<open>main.py: utilities and API calls\<close>

definition ensure_dirs :: "env \<Rightarrow> world \<Rightarrow> pyerror + world" where
  "ensure_dirs en w =
     (case makedirs_exist_ok en w IMAGES_DIR of
        Inl e \<Rightarrow> Inl e
      | Inr w1 \<Rightarrow> makedirs_exist_ok en w1 TIERS_DIR)"

definition save_json :: "env \<Rightarrow> world \<Rightarrow> string \<Rightarrow> json \<Rightarrow> pyerror + world" where
  "save_json en w path data = write_file en w path (Doc data)"

text \<open>\<open>load_json\<close> returns \<open>None\<close> for a missing file, and so also for a file holding \<open>null\<close>.\<close>

definition load_json :: "world \<Rightarrow> string \<Rightarrow> pyerror + json" where
  "load_json w path =
     (case files w path of
        None \<Rightarrow> Inr JNull
      | Some (Doc j) \<Rightarrow> Inr j
      | Some (Bytes b) \<Rightarrow> Inl JSONDecodeError
      | Some Dir \<Rightarrow> Inl OSError)"

text \<open>
  \<open>get_ships_page(page_no)\<close>: the request, \<open>raise_for_status\<close>, then the decoded body.
  \<open>page_reply\<close> is the value (or the exception) the call ends with.
\<close>

definition page_reply :: "env \<Rightarrow> event list \<Rightarrow> int \<Rightarrow> pyerror + json" where
  "page_reply en hist page_no =
     (case requests_get en hist (ShipsPage page_no) of
        Inl e \<Rightarrow> Inl e
      | Inr r \<Rightarrow>
          if raise_for_status r then Inl HTTPError
          else (case json_body r of None \<Rightarrow> Inl JSONDecodeError | Some d \<Rightarrow> Inr d))"

definition get_ships_page :: "env \<Rightarrow> world \<Rightarrow> int \<Rightarrow> (pyerror + json) \<times> world" where
  "get_ships_page en w page_no = (page_reply en (events w) page_no, log_event (Get (ShipsPage page_no)) w)"

text \<open>The inner \<open>for sid, sdata in ships.items(): cache[sid] = sdata\<close>.\<close>

definition merge_page :: "pydict \<Rightarrow> pydict \<Rightarrow> pydict" where
  "merge_page ships cache = fold (\<lambda>kv c. dict_set c (fst kv) (snd kv)) ships cache"

text \<open>
  The \<open>while True\<close> loop of \<open>update_cache_full\<close>, from the state \<open>(page, cache)\<close>. The number
  of iterations is decided by the server, so the loop need not end: \<open>None\<close> is a run
  that never leaves the loop.
\<close>

partial_function (option) fetch_pages ::
    "env \<Rightarrow> int \<Rightarrow> pydict \<Rightarrow> world \<Rightarrow> ((pyerror + pydict) \<times> world) option" where
  "fetch_pages en page cache w =
     (case get_ships_page en w page of
        (Inl e, w1) \<Rightarrow> Some (Inl e, w1)
      | (Inr data, w1) \<Rightarrow>
          (case data of
             JObj d \<Rightarrow>
               if dict_get d ''status'' \<noteq> JStr ''ok'' then Some (Inl (RuntimeError data), w1)
               else
                 (case dict_get_default d ''data'' (JObj []) of
                    JObj ships \<Rightarrow>
                      (case dict_get_default d ''meta'' (JObj []) of
                         JObj meta \<Rightarrow>
                           (case int_ge page (dict_get_default meta ''page_total'' (JInt 1)) of
                              Inl e \<Rightarrow> Some (Inl e, w1)
                            | Inr done \<Rightarrow>
                                if done then Some (Inr (merge_page ships cache), w1)
                                else fetch_pages en (page + 1) (merge_page ships cache)
                                       (log_event (Sleep REQUEST_DELAY) w1))
                       | _ \<Rightarrow> Some (Inl AttributeError, w1))
                  | _ \<Rightarrow> Some (Inl AttributeError, w1))
           | _ \<Rightarrow> Some (Inl AttributeError, w1)))"

definition update_cache_full :: "env \<Rightarrow> world \<Rightarrow> ((pyerror + pydict) \<times> world) option" where
  "update_cache_full en w =
     (case fetch_pages en 1 [] w of
        None \<Rightarrow> None
      | Some (Inl e, w1) \<Rightarrow> Some (Inl e, w1)
      | Some (Inr cache, w1) \<Rightarrow>
          (case save_json en w1 CACHE_FILE (JObj cache) of
             Inl e \<Rightarrow> Some (Inl e, w1)
           | Inr w2 \<Rightarrow> Some (Inr cache, w2)))"

definition load_or_update_cache :: "env \<Rightarrow> world \<Rightarrow> bool \<Rightarrow> ((pyerror + json) \<times> world) option" where
  "load_or_update_cache en w force_update =
     (if force_update \<or> \<not> path_exists w CACHE_FILE
      then map_option (map_prod (map_sum id JObj) id) (update_cache_full en w)
      else
        (case load_json w CACHE_FILE of
           Inl e \<Rightarrow> Some (Inl e, w)
         | Inr cache \<Rightarrow>
             if cache = JNull
             then map_option (map_prod (map_sum id JObj) id) (update_cache_full en w)
             else Some (Inr cache, w)))"

section \<open>main.py: image URL and download\<close>

text \<open>
  The part of \<open>guess_image_url_from_shipdata\<close> that looks into \<open>sdata["images"]\<close>: the first
  truthy value under one of the five preferred keys (whatever its type), else the first
  value that is a string starting with \<open>http\<close>.
\<close>

definition url_from_images :: "json \<Rightarrow> json option" where
  "url_from_images images =
     (case images of
        JObj im \<Rightarrow>
          (case find truthy (map (dict_get im) [''large'', ''big'', ''small'', ''preview'', ''contour_icon'']) of
             Some url \<Rightarrow> Some url
           | None \<Rightarrow> find http_string (dict_values im))
      | _ \<Rightarrow> None)"

definition url_from_fields :: "pydict \<Rightarrow> json" where
  "url_from_fields d =
     (case url_from_images (dict_get d ''images'') of
        Some url \<Rightarrow> url
      | None \<Rightarrow>
          let image = py_or (py_or (dict_get d ''image'') (dict_get d ''picture'')) (dict_get d ''preview'') in
          if http_string image then image
          else (case find http_string (map (dict_get d) [''image_small'', ''image_large'', ''icon'', ''contour_image'']) of
                  Some url \<Rightarrow> url
                | None \<Rightarrow> JNull))"

text \<open>\<open>guess_image_url_from_shipdata(sdata)\<close>; \<open>JNull\<close> is Python's \<open>None\<close>.\<close>

definition guess_image_url_from_shipdata :: "json \<Rightarrow> pyerror + json" where
  "guess_image_url_from_shipdata sdata =
     (if \<not> truthy sdata then Inr JNull
      else case sdata of JObj d \<Rightarrow> Inr (url_from_fields d) | _ \<Rightarrow> Inl AttributeError)"

text \<open>
  The \<open>try\<close> block of \<open>download_image\<close>. \<open>open(out_path, "wb")\<close> creates the file before the
  first chunk arrives, so a stream that breaks leaves the chunks received so far on disk.
\<close>

definition download_attempt :: "env \<Rightarrow> world \<Rightarrow> json \<Rightarrow> string \<Rightarrow> (pyerror + unit) \<times> world" where
  "download_attempt en w url out_path =
     (let w1 = log_event (Get (ImageUrl url)) w in
      case requests_get en (events w) (ImageUrl url) of
        Inl e \<Rightarrow> (Inl e, w1)
      | Inr r \<Rightarrow>
          if raise_for_status r then (Inl HTTPError, w1)
          else
            (case write_file en w1 out_path (Bytes (chunks r)) of
               Inl e \<Rightarrow> (Inl e, w1)
             | Inr w2 \<Rightarrow> (if stream_ok r then Inr () else Inl RequestException, w2)))"

text \<open>\<open>download_image(url, out_path)\<close>: every exception of the attempt becomes \<open>False\<close>.\<close>

definition download_image :: "env \<Rightarrow> world \<Rightarrow> json \<Rightarrow> string \<Rightarrow> bool \<times> world" where
  "download_image en w url out_path =
     (if \<not> truthy url then (False, w)
      else if path_exists w out_path then (True, w)
      else
        (case download_attempt en w url out_path of
           (Inl e, w1) \<Rightarrow> (False, w1)
         | (Inr u, w1) \<Rightarrow> (True, w1)))"

section \<open>main.py: tiers and images\<close>

type_synonym tiers = "(int \<times> json list) list"

text \<open>\<open>{i: [] for i in range(1, 11)}\<close>.\<close>

definition empty_tiers :: tiers where
  "empty_tiers = map (\<lambda>i. (i, [])) [1..10]"

text \<open>\<open>tiers[tier].append(ship_entry)\<close>.\<close>

definition bucket_add :: "tiers \<Rightarrow> int \<Rightarrow> json \<Rightarrow> tiers" where
  "bucket_add ts tier entry = map (\<lambda>tb. if fst tb = tier then (fst tb, snd tb @ [entry]) else tb) ts"

definition tiers_append :: "tiers \<Rightarrow> int \<Rightarrow> json \<Rightarrow> pyerror + tiers" where
  "tiers_append ts tier entry =
     (case map_of ts tier of
        None \<Rightarrow> Inl KeyError
      | Some bucket \<Rightarrow> Inr (bucket_add ts tier entry))"

text \<open>\<open>tier = s.get("tier")\<close>, then \<open>s.get("level")\<close> when that is \<open>None\<close>.\<close>

definition resolve_tier :: "pydict \<Rightarrow> json" where
  "resolve_tier d = (let tier = dict_get d ''tier'' in if tier = JNull then dict_get d ''level'' else tier)"

text \<open>\<open>int(tier) if tier is not None else None\<close> under the bare \<open>except\<close>.\<close>

definition coerce_tier :: "json \<Rightarrow> int option" where
  "coerce_tier tier =
     (if tier = JNull then None
      else case py_int tier of Inl e \<Rightarrow> None | Inr n \<Rightarrow> Some n)"

text \<open>The test \<open>not tier or not (1 <= tier <= 10)\<close> that skips a record.\<close>

definition tier_rejected :: "int option \<Rightarrow> bool" where
  "tier_rejected tier = (case tier of None \<Rightarrow> True | Some n \<Rightarrow> n = 0 \<or> \<not> (1 \<le> n \<and> n \<le> 10))"

text \<open>The dictionary literal \<open>ship_entry\<close>.\<close>

definition ship_entry :: "string \<Rightarrow> pydict \<Rightarrow> int \<Rightarrow> pydict" where
  "ship_entry sid d tier =
     [(''ship_id'', py_or (dict_get d ''ship_id'') (JStr sid)),
      (''name'', py_or (py_or (dict_get d ''name'') (dict_get d ''localized_name'')) (dict_get d ''ship_name'')),
      (''tier'', JInt tier),
      (''type'', py_or (dict_get d ''type'') (dict_get d ''ship_type''))]"

text \<open>\<open>ship_entry['ship_id']\<close>.\<close>

definition dict_index :: "pydict \<Rightarrow> string \<Rightarrow> pyerror + json" where
  "dict_index d k = (case map_of d k of None \<Rightarrow> Inl KeyError | Some v \<Rightarrow> Inr v)"

text \<open>\<open>os.path.splitext(img_url.split("?")[0])[1] or ".jpg"\<close>.\<close>

definition image_ext :: "string \<Rightarrow> string" where
  "image_ext u =
     (let e = splitext_ext (takeWhile (\<lambda>c. c \<noteq> CHR ''?'') u) in if e \<noteq> [] then e else ''.jpg'')"

text \<open>The f-string \<open>ship_{ship_entry['ship_id']}{ext}\<close>.\<close>

definition image_fname :: "env \<Rightarrow> json \<Rightarrow> string \<Rightarrow> string" where
  "image_fname en ship_id u = ''ship_'' @ py_str (repr_other en) ship_id @ image_ext u"

text \<open>
  The block under \<open>if img_url:\<close>. The URL is stored first; \<open>img_url.split("?")\<close> then raises
  for a URL that is not a string.
\<close>

definition attach_image ::
    "env \<Rightarrow> bool \<Rightarrow> world \<Rightarrow> pydict \<Rightarrow> json \<Rightarrow> (pyerror + pydict) \<times> world" where
  "attach_image en download_images w entry img_url =
     (let entry1 = dict_set entry ''image_url'' img_url in
      case img_url of
        JStr u \<Rightarrow>
          (case dict_index entry1 ''ship_id'' of
             Inl err \<Rightarrow> (Inl err, w)
           | Inr ship_id \<Rightarrow>
               (let fname = image_fname en ship_id u;
                    entry2 = dict_set entry1 ''image'' (JStr fname) in
                if download_images then
                  (let outpath = path_join IMAGES_DIR fname in
                   if \<not> path_exists w outpath then
                     (case download_image en w img_url outpath of
                        (ok, w1) \<Rightarrow> (Inr (if ok then entry2 else dict_pop entry2 ''image''), w1))
                   else (Inr entry2, w))
                else (Inr entry2, w)))
      | _ \<Rightarrow> (Inl AttributeError, w))"

text \<open>One iteration of \<open>for sid, s in cache.items()\<close>.\<close>

definition process_ship ::
    "env \<Rightarrow> bool \<Rightarrow> string \<times> json \<Rightarrow> tiers \<Rightarrow> world \<Rightarrow> (pyerror + tiers) \<times> world" where
  "process_ship en download_images item ts w =
     (case snd item of
        JObj d \<Rightarrow>
          (let tier = coerce_tier (resolve_tier d) in
           if tier_rejected tier then (Inr ts, w)
           else
             (case tier of
                None \<Rightarrow> (Inr ts, w)
              | Some n \<Rightarrow>
                  (case is_buyable_or_researchable (JObj d) of
                     Inl e \<Rightarrow> (Inl e, w)
                   | Inr eligible \<Rightarrow>
                       if \<not> eligible then (Inr ts, w)
                       else
                         (case guess_image_url_from_shipdata (JObj d) of
                            Inl e \<Rightarrow> (Inl e, w)
                          | Inr img_url \<Rightarrow>
                              (case (if truthy img_url
                                     then attach_image en download_images w (ship_entry (fst item) d n) img_url
                                     else (Inr (ship_entry (fst item) d n), w)) of
                                 (Inl e, w1) \<Rightarrow> (Inl e, w1)
                               | (Inr entry, w1) \<Rightarrow>
                                   (case tiers_append ts n (JObj entry) of
                                      Inl e \<Rightarrow> (Inl e, w1)
                                    | Inr ts1 \<Rightarrow> (Inr ts1, log_event (Sleep REQUEST_DELAY) w1)))))))
      | _ \<Rightarrow> (Inl AttributeError, w))"

text \<open>The whole \<open>for\<close> loop: the first exception ends it.\<close>

fun classify_ships ::
    "env \<Rightarrow> bool \<Rightarrow> (string \<times> json) list \<Rightarrow> tiers \<Rightarrow> world \<Rightarrow> (pyerror + tiers) \<times> world" where
  "classify_ships en download_images [] ts w = (Inr ts, w)"
| "classify_ships en download_images (item # items) ts w =
     (case process_ship en download_images item ts w of
        (Inl e, w1) \<Rightarrow> (Inl e, w1)
      | (Inr ts1, w1) \<Rightarrow> classify_ships en download_images items ts1 w1)"

text \<open>\<open>for t in range(1, 11): save_json(tiers/tier_t.json, tiers[t])\<close>, over the given tiers.\<close>

definition tier_path :: "int \<Rightarrow> string" where
  "tier_path t = path_join TIERS_DIR (''tier_'' @ dec_int t @ ''.json'')"

fun save_tiers :: "env \<Rightarrow> tiers \<Rightarrow> int list \<Rightarrow> world \<Rightarrow> (pyerror + unit) \<times> world" where
  "save_tiers en ts [] w = (Inr (), w)"
| "save_tiers en ts (t # rest) w =
     (case map_of ts t of
        None \<Rightarrow> (Inl KeyError, w)
      | Some bucket \<Rightarrow>
          (case save_json en w (tier_path t) (JArr bucket) of
             Inl e \<Rightarrow> (Inl e, w)
           | Inr w1 \<Rightarrow> save_tiers en ts rest w1))"

definition build_tiers_and_images ::
    "env \<Rightarrow> world \<Rightarrow> json \<Rightarrow> bool \<Rightarrow> (pyerror + tiers) \<times> world" where
  "build_tiers_and_images en w cache download_images =
     (case cache of
        JObj items \<Rightarrow>
          (case classify_ships en download_images items empty_tiers w of
             (Inl e, w1) \<Rightarrow> (Inl e, w1)
           | (Inr ts, w1) \<Rightarrow>
               (case save_tiers en ts [1..10] w1 of
                  (Inl e, w2) \<Rightarrow> (Inl e, w2)
                | (Inr u, w2) \<Rightarrow> (Inr ts, w2)))
      | _ \<Rightarrow> (Inl AttributeError, w))"

section \<open>main.py: the run\<close>

text \<open>\<open>isinstance(v, dict)\<close>.\<close>

fun is_dict :: "json \<Rightarrow> bool" where
  "is_dict (JObj d) = True"
| "is_dict _ = False"

text \<open>The objects \<open>"ship_id" in v\<close> can search: a dictionary, a list, a string.\<close>

fun is_container :: "json \<Rightarrow> bool" where
  "is_container (JObj d) = True"
| "is_container (JArr xs) = True"
| "is_container (JStr s) = True"
| "is_container _ = False"

text \<open>
  The check of \<open>main\<close> on the loaded cache:
  \<open>not isinstance(cache, dict) or not any("ship_id" in v for v in cache.values())\<close>.
\<close>

definition cache_needs_update :: "json \<Rightarrow> pyerror + bool" where
  "cache_needs_update cache =
     (case cache of
        JObj d \<Rightarrow> (case any_has_ship_id (dict_values d) of Inl e \<Rightarrow> Inl e | Inr found \<Rightarrow> Inr (\<not> found))
      | _ \<Rightarrow> Inr True)"

text \<open>
  \<open>main\<close>: the credential test, the directories, the cache, the check, the rebuild when the
  check asks for one, and the classification.
\<close>

definition main :: "env \<Rightarrow> world \<Rightarrow> ((pyerror + tiers) \<times> world) option" where
  "main en w =
     (if API_KEY = [] \<or> API_KEY = ''YOUR_APPLICATION_ID'' then Some (Inl SystemExit, w)
      else
        (case ensure_dirs en w of
           Inl e \<Rightarrow> Some (Inl e, w)
         | Inr w1 \<Rightarrow>
             (case load_or_update_cache en w1 False of
                None \<Rightarrow> None
              | Some (Inl e, w2) \<Rightarrow> Some (Inl e, w2)
              | Some (Inr cache, w2) \<Rightarrow>
                  (case cache_needs_update cache of
                     Inl e \<Rightarrow> Some (Inl e, w2)
                   | Inr stale \<Rightarrow>
                       if stale then
                         (case update_cache_full en w2 of
                            None \<Rightarrow> None
                          | Some (Inl e, w3) \<Rightarrow> Some (Inl e, w3)
                          | Some (Inr fresh, w3) \<Rightarrow> Some (build_tiers_and_images en w3 (JObj fresh) True))
                       else Some (build_tiers_and_images en w2 cache True)))))"

section \<open>get.py: the detail of one ship\<close>

text \<open>\<open>ensure_dir(path)\<close>: \<open>os.makedirs\<close> unless the path exists.\<close>

definition ensure_dir :: "env \<Rightarrow> world \<Rightarrow> string \<Rightarrow> pyerror + world" where
  "ensure_dir en w path =
     (if path_exists w path then Inr w
      else if can_write en path then Inr (w\<lparr>files := (files w)(path \<mapsto> Dir)\<rparr>)
      else Inl OSError)"

text \<open>
  The \<open>try\<close> block of \<open>fetch_and_save_ship\<close>. There is no \<open>raise_for_status\<close> here; a
  status other than \<open>"ok"\<close> ends the function with a plain \<open>return\<close>.
\<close>

definition fetch_detail :: "env \<Rightarrow> world \<Rightarrow> string \<Rightarrow> json \<Rightarrow> (pyerror + unit) \<times> world" where
  "fetch_detail en w filepath ship_id =
     (let w1 = log_event (Get (ShipDetail ship_id)) w in
      case requests_get en (events w) (ShipDetail ship_id) of
        Inl e \<Rightarrow> (Inl e, w1)
      | Inr r \<Rightarrow>
          (case json_body r of
             None \<Rightarrow> (Inl JSONDecodeError, w1)
           | Some data \<Rightarrow>
               (case data of
                  JObj d \<Rightarrow>
                    if dict_get d ''status'' \<noteq> JStr ''ok'' then (Inr (), w1)
                    else
                      (case write_file en w1 filepath (Doc data) of
                         Inl e \<Rightarrow> (Inl e, w1)
                       | Inr w2 \<Rightarrow> (Inr (), log_event (Sleep 300) w2))
                | _ \<Rightarrow> (Inl AttributeError, w1))))"

text \<open>
  \<open>fetch_and_save_ship(ship_name, ship_id)\<close>. The \<open>except Exception\<close> clause prints and
  falls off the end of the function, so only \<open>ensure_dir\<close> can raise to the caller.
\<close>

definition fetch_and_save_ship :: "env \<Rightarrow> world \<Rightarrow> json \<Rightarrow> json \<Rightarrow> (pyerror + unit) \<times> world" where
  "fetch_and_save_ship en w ship_name ship_id =
     (case ensure_dir en w OUTPUT_DIR of
        Inl e \<Rightarrow> (Inl e, w)
      | Inr w1 \<Rightarrow>
          (let filepath = path_join OUTPUT_DIR (py_str (repr_other en) ship_name @ ''.json'') in
           if path_exists w1 filepath then (Inr (), w1)
           else
             (case fetch_detail en w1 filepath ship_id of
                (Inl e, w2) \<Rightarrow> (Inr (), w2)
              | (Inr u, w2) \<Rightarrow> (Inr (), w2))))"

section \<open>Concrete environments and inputs\<close>

text \<open>An environment without a network: every request raises, every path is writable.\<close>

definition offline_env :: env where
  "offline_env = \<lparr>requests_get = (\<lambda>hist req. Inl RequestException),
                   can_write = (\<lambda>path. True),
                   repr_other = (\<lambda>v. [])\<rparr>"

definition empty_world :: world where
  "empty_world = \<lparr>files = Map.empty, events = []\<rparr>"

text \<open>A world in which one image has been downloaded before.\<close>

definition world_with_image :: world where
  "world_with_image = \<lparr>files = [''images/ship_1.png'' \<mapsto> Bytes [''PNG'']], events = []\<rparr>"

text \<open>The calls a rebuild over the given pages makes: a pause between two page requests.\<close>

fun page_trace :: "int list \<Rightarrow> event list" where
  "page_trace [] = []"
| "page_trace [p] = [Get (ShipsPage p)]"
| "page_trace (p # q # ps) = Get (ShipsPage p) # Sleep REQUEST_DELAY # page_trace (q # ps)"

text \<open>
  A catalog of two pages, and the server that serves it. The second page brings a new
  ship and repeats the identifier of the first page with a newer record.
\<close>

definition catalog_page :: "int \<Rightarrow> pydict" where
  "catalog_page p =
     (if p = 1
      then [(''100'', JObj [(''ship_id'', JInt 100), (''name'', JStr ''Fletcher''), (''tier'', JInt 5),
                            (''is_researchable'', JBool True)])]
      else [(''200'', JObj [(''ship_id'', JInt 200), (''name'', JStr ''Yamato''), (''tier'', JInt 10),
                            (''is_researchable'', JBool True)]),
            (''100'', JObj [(''ship_id'', JInt 100), (''name'', JStr ''Fletcher II''), (''tier'', JInt 5),
                            (''is_researchable'', JBool True)])])"

text \<open>The cache a rebuild from that catalog gives, and the buckets its two ships fall into.\<close>

definition catalog_cache :: pydict where
  "catalog_cache =
     [(''100'', JObj [(''ship_id'', JInt 100), (''name'', JStr ''Fletcher II''), (''tier'', JInt 5),
                      (''is_researchable'', JBool True)]),
      (''200'', JObj [(''ship_id'', JInt 200), (''name'', JStr ''Yamato''), (''tier'', JInt 10),
                      (''is_researchable'', JBool True)])]"

definition catalog_tiers :: tiers where
  "catalog_tiers =
     [(1, []), (2, []), (3, []), (4, []),
      (5, [JObj [(''ship_id'', JInt 100), (''name'', JStr ''Fletcher II''), (''tier'', JInt 5), (''type'', JNull)]]),
      (6, []), (7, []), (8, []), (9, []),
      (10, [JObj [(''ship_id'', JInt 200), (''name'', JStr ''Yamato''), (''tier'', JInt 10), (''type'', JNull)]])]"

definition catalog_meta :: pydict where
  "catalog_meta = [(''count'', JInt 1), (''page_total'', JInt 2)]"

definition catalog_body :: "int \<Rightarrow> pydict" where
  "catalog_body p = [(''status'', JStr ''ok''), (''meta'', JObj catalog_meta), (''data'', JObj (catalog_page p))]"

definition two_page_env :: env where
  "two_page_env = \<lparr>requests_get = (\<lambda>hist req.
                       case req of
                         ShipsPage p \<Rightarrow> Inr \<lparr>status_code = 200, json_body = Some (JObj (catalog_body p)),
                                              chunks = [], stream_ok = True\<rparr>
                       | _ \<Rightarrow> Inl RequestException),
                    can_write = (\<lambda>path. True),
                    repr_other = (\<lambda>v. [])\<rparr>"

text \<open>A server that answers every API request with an error document.\<close>

definition error_body :: pydict where
  "error_body = [(''status'', JStr ''error''), (''error'', JObj [(''code'', JInt 407), (''message'', JStr ''INVALID_APPLICATION_ID'')])]"

definition refusing_env :: env where
  "refusing_env = \<lparr>requests_get = (\<lambda>hist req. Inr \<lparr>status_code = 200, json_body = Some (JObj error_body),
                                                       chunks = [], stream_ok = True\<rparr>),
                    can_write = (\<lambda>path. True),
                    repr_other = (\<lambda>v. [])\<rparr>"

text \<open>
  A server whose first page of ships is in order and which answers every other request
  with the error document.
\<close>

definition late_error_env :: env where
  "late_error_env = \<lparr>requests_get = (\<lambda>hist req.
                         Inr \<lparr>status_code = 200,
                              json_body = Some (JObj (if req = ShipsPage 1 then catalog_body 1 else error_body)),
                              chunks = [], stream_ok = True\<rparr>),
                      can_write = (\<lambda>path. True),
                      repr_other = (\<lambda>v. [])\<rparr>"

text \<open>The records of the scenarios.\<close>

definition fletcher :: pydict where
  "fletcher = [(''tier'', JInt 5), (''is_researchable'', JBool True), (''name'', JStr ''Fletcher'')]"

definition fletcher_url :: string where
  "fletcher_url = ''http://img.example/fletcher.png?v=2''"

definition fletcher_with_image :: pydict where
  "fletcher_with_image = fletcher @ [(''images'', JObj [(''small'', JStr fletcher_url)])]"

text \<open>Researchable records whose tier is not a number, and whose fallback level is 11.\<close>

definition abc_tier_record :: pydict where
  "abc_tier_record = [(''tier'', JStr ''abc''), (''is_researchable'', JBool True), (''name'', JStr ''Abc'')]"

definition level11_record :: pydict where
  "level11_record = [(''level'', JInt 11), (''is_researchable'', JBool True), (''name'', JStr ''Eleven'')]"

text \<open>The buckets that hold the one summary of the scenario in tier 5.\<close>

definition fletcher_tiers :: tiers where
  "fletcher_tiers =
     [(1, []), (2, []), (3, []), (4, []),
      (5, [JObj [(''ship_id'', JStr ''100''), (''name'', JStr ''Fletcher''), (''tier'', JInt 5), (''type'', JNull)]]),
      (6, []), (7, []), (8, []), (9, []), (10, [])]"

text \<open>A cache in which one record carries an identifier and another does not.\<close>

definition mixed_cache :: pydict where
  "mixed_cache = [(''100'', JObj ((''ship_id'', JInt 100) # fletcher)), (''200'', JObj [(''name'', JStr ''Yamato'')])]"

text \<open>
  A cache none of whose values contains \<open>ship_id\<close>: an entry from a name to an identifier
  and a record without the key.
\<close>

definition nameless_cache :: pydict where
  "nameless_cache = [(''Fletcher'', JStr ''100''), (''Yamato'', JObj [(''id'', JInt 200)])]"

text \<open>Worlds after an earlier run: both directories exist, with or without a cache file.\<close>

definition world_without_cache :: world where
  "world_without_cache = \<lparr>files = [IMAGES_DIR \<mapsto> Dir, TIERS_DIR \<mapsto> Dir], events = []\<rparr>"

definition world_with_cache :: "json \<Rightarrow> world" where
  "world_with_cache cache = \<lparr>files = [IMAGES_DIR \<mapsto> Dir, TIERS_DIR \<mapsto> Dir, CACHE_FILE \<mapsto> Doc cache], events = []\<rparr>"

section \<open>Properties of the classifier\<close>

lemma map_of_dict_pop: "map_of (dict_pop d k) k' = (if k' = k then None else map_of d k')"
  unfolding dict_pop_def by (induction d) auto

lemma dict_get_pop: "dict_get (dict_pop d k) k' = (if k' = k then JNull else dict_get d k')"
  by (simp add: dict_get_def map_of_dict_pop)

lemma dict_get_Nil: "dict_get [] k = JNull"
  by (simp add: dict_get_def)

lemma dict_pop_empty_get: "dict_pop d k = [] \<Longrightarrow> k' \<noteq> k \<Longrightarrow> dict_get d k' = JNull"
  using dict_get_pop [of d k k'] by (simp add: dict_get_Nil)

text \<open>
  Claim C1. A record whose \<open>is_premium\<close> field is \<open>True\<close> is never eligible, whatever its
  other fields hold: the premium test comes before the researchable and price tests.
\<close>

theorem premium_never_eligible:
  "dict_get d ''is_premium'' = JBool True \<Longrightarrow> is_buyable_or_researchable (JObj d) = Inr False"
proof -
  assume prem: "dict_get d ''is_premium'' = JBool True"
  then have "d \<noteq> []" by (auto simp: dict_get_Nil)
  with prem show ?thesis
    by (simp add: is_buyable_or_researchable_def eligible_fields_def)
qed

text \<open>
  The scenario of the specification, a premium ship of tier 5 with a price of 1000000
  credits: not eligible, although the same record without the flag is.
\<close>

theorem premium_never_eligible_witness:
  "dict_get [(''tier'', JInt 5), (''is_premium'', JBool True), (''price'', JObj [(''credit'', JInt 1000000)])]
       ''is_premium'' = JBool True
   \<and> is_buyable_or_researchable
       (JObj [(''tier'', JInt 5), (''is_premium'', JBool True), (''price'', JObj [(''credit'', JInt 1000000)])])
     = Inr False
   \<and> is_buyable_or_researchable
       (JObj [(''tier'', JInt 5), (''price'', JObj [(''credit'', JInt 1000000)])])
     = Inr True"
  using premium_never_eligible
    [of "[(''tier'', JInt 5), (''is_premium'', JBool True), (''price'', JObj [(''credit'', JInt 1000000)])]"]
  by (simp add: dict_get_def is_buyable_or_researchable_def eligible_fields_def py_or_def dict_values_def)

lemma eligible_fields_pop_premium:
  "dict_get d ''is_premium'' \<noteq> JBool True \<Longrightarrow>
   eligible_fields (dict_pop d ''is_premium'') = eligible_fields d"
  by (simp add: eligible_fields_def dict_get_pop)

lemma eligible_fields_pop_researchable:
  "dict_get d ''is_researchable'' \<noteq> JBool True \<Longrightarrow>
   eligible_fields (dict_pop d ''is_researchable'') = eligible_fields d"
  by (simp add: eligible_fields_def dict_get_pop)

lemma eligible_fields_only_flag:
  assumes "dict_pop d k = []" "dict_get d k \<noteq> JBool True"
    "k = ''is_premium'' \<or> k = ''is_researchable''"
  shows "eligible_fields d = False"
proof -
  have other: "\<And>k'. k' \<noteq> k \<Longrightarrow> dict_get d k' = JNull"
    using assms(1) by (rule dict_pop_empty_get)
  from assms(3) show ?thesis
  proof
    assume k: "k = ''is_premium''"
    with assms(2) other show ?thesis
      by (simp add: eligible_fields_def py_or_def)
  next
    assume k: "k = ''is_researchable''"
    with assms(2) other show ?thesis
      by (simp add: eligible_fields_def py_or_def)
  qed
qed

lemma classifier_ignores_flag:
  assumes "dict_get d k \<noteq> JBool True" "k = ''is_premium'' \<or> k = ''is_researchable''"
  shows "is_buyable_or_researchable (JObj d) = is_buyable_or_researchable (JObj (dict_pop d k))"
proof (cases "dict_pop d k = []")
  case True
  then have "eligible_fields d = False" using assms by (rule eligible_fields_only_flag)
  with True show ?thesis by (simp add: is_buyable_or_researchable_def)
next
  case False
  then have "d \<noteq> []" by (auto simp: dict_pop_def)
  moreover have "eligible_fields (dict_pop d k) = eligible_fields d"
    using assms eligible_fields_pop_premium eligible_fields_pop_researchable by auto
  ultimately show ?thesis using False by (simp add: is_buyable_or_researchable_def)
qed

text \<open>
  Claim C9. The premium and researchable flags are compared with \<open>is True\<close>. A record whose
  \<open>is_premium\<close> is truthy but not a boolean is classified as the same record without that
  field (the premium exclusion does not fire), and a record whose \<open>is_researchable\<close> is
  truthy but not a boolean is classified as the same record without that field (the
  researchable rule does not apply, and the remaining tests decide).
\<close>

theorem flags_compared_by_identity:
  "(truthy (dict_get d ''is_premium'') \<and> dict_get d ''is_premium'' \<notin> range JBool \<longrightarrow>
      is_buyable_or_researchable (JObj d) = is_buyable_or_researchable (JObj (dict_pop d ''is_premium'')))
   \<and> (truthy (dict_get d ''is_researchable'') \<and> dict_get d ''is_researchable'' \<notin> range JBool \<longrightarrow>
      is_buyable_or_researchable (JObj d) = is_buyable_or_researchable (JObj (dict_pop d ''is_researchable'')))"
  using classifier_ignores_flag [of d "''is_premium''"] classifier_ignores_flag [of d "''is_researchable''"]
  by auto

text \<open>
  With the integer 1 in both flags and a positive price the record is classified as it is
  without either flag. A record with \<open>is_premium = 1\<close> that is researchable is eligible; a
  record whose only field is \<open>is_researchable = 1\<close> is not.
\<close>

theorem flags_compared_by_identity_witness:
  "truthy (dict_get [(''is_premium'', JInt 1), (''is_researchable'', JInt 1), (''price'', JObj [(''credit'', JInt 5)])] ''is_premium'')
   \<and> dict_get [(''is_premium'', JInt 1), (''is_researchable'', JInt 1), (''price'', JObj [(''credit'', JInt 5)])] ''is_premium'' \<notin> range JBool
   \<and> truthy (dict_get [(''is_premium'', JInt 1), (''is_researchable'', JInt 1), (''price'', JObj [(''credit'', JInt 5)])] ''is_researchable'')
   \<and> dict_get [(''is_premium'', JInt 1), (''is_researchable'', JInt 1), (''price'', JObj [(''credit'', JInt 5)])] ''is_researchable'' \<notin> range JBool
   \<and> is_buyable_or_researchable (JObj [(''is_premium'', JInt 1), (''is_researchable'', JInt 1), (''price'', JObj [(''credit'', JInt 5)])])
       = is_buyable_or_researchable (JObj (dict_pop [(''is_premium'', JInt 1), (''is_researchable'', JInt 1), (''price'', JObj [(''credit'', JInt 5)])] ''is_premium''))
   \<and> is_buyable_or_researchable (JObj [(''is_premium'', JInt 1), (''is_researchable'', JInt 1), (''price'', JObj [(''credit'', JInt 5)])])
       = is_buyable_or_researchable (JObj (dict_pop [(''is_premium'', JInt 1), (''is_researchable'', JInt 1), (''price'', JObj [(''credit'', JInt 5)])] ''is_researchable''))
   \<and> is_buyable_or_researchable (JObj [(''is_premium'', JInt 1), (''is_researchable'', JBool True)]) = Inr True
   \<and> is_buyable_or_researchable (JObj [(''is_researchable'', JInt 1)]) = Inr False"
  using flags_compared_by_identity
    [of "[(''is_premium'', JInt 1), (''is_researchable'', JInt 1), (''price'', JObj [(''credit'', JInt 5)])]"]
  by (simp add: dict_get_def dict_pop_def is_buyable_or_researchable_def eligible_fields_def py_or_def dict_values_def image_iff)

section \<open>Properties of the image download\<close>

text \<open>
  Claim C10. \<open>download_image\<close> tests the URL before the output path: a falsy URL (\<open>None\<close> or
  the empty string) gives failure and leaves the world untouched, also when the output
  path exists.
\<close>

theorem falsy_url_fails_before_path_check:
  "\<not> truthy url \<Longrightarrow> download_image en w url out_path = (False, w)"
  by (simp add: download_image_def)

text \<open>Both falsy URLs against an image file that is already on disk.\<close>

theorem falsy_url_fails_before_path_check_witness:
  "\<not> truthy (JStr []) \<and> \<not> truthy JNull
   \<and> path_exists world_with_image ''images/ship_1.png''
   \<and> download_image offline_env world_with_image (JStr []) ''images/ship_1.png'' = (False, world_with_image)
   \<and> download_image offline_env world_with_image JNull ''images/ship_1.png'' = (False, world_with_image)"
  using falsy_url_fails_before_path_check [of "JStr []" offline_env world_with_image "''images/ship_1.png''"]
    falsy_url_fails_before_path_check [of JNull offline_env world_with_image "''images/ship_1.png''"]
  by (simp add: path_exists_def world_with_image_def)

text \<open>
  Claim C6 says that an existing output path gives success for every URL. With the empty
  URL the call fails although the path exists.
\<close>

theorem existing_path_fails_for_empty_url:
  "path_exists world_with_image ''images/ship_1.png''
   \<and> fst (download_image offline_env world_with_image (JStr []) ''images/ship_1.png'') = False"
  by (simp add: path_exists_def world_with_image_def download_image_def)

text \<open>
  Claim C6, amended. For every non-empty (truthy) URL and every output path that exists,
  \<open>download_image\<close> returns success and the world it returns is the world it was given: no
  request is recorded and no file changes. A second call in succession does the same.
\<close>

theorem existing_path_skips_download:
  assumes "truthy url" and "path_exists w out_path"
  shows "download_image en w url out_path = (True, w)
       \<and> download_image en (snd (download_image en w url out_path)) url out_path = (True, w)"
  using assms by (simp add: download_image_def)

text \<open>Two calls without a network: both succeed, and the record of requests stays empty.\<close>

theorem existing_path_skips_download_witness:
  "truthy (JStr ''http://img.example/a.png'') \<and> path_exists world_with_image ''images/ship_1.png''
   \<and> download_image offline_env world_with_image (JStr ''http://img.example/a.png'') ''images/ship_1.png''
       = (True, world_with_image)
   \<and> download_image offline_env
        (snd (download_image offline_env world_with_image (JStr ''http://img.example/a.png'') ''images/ship_1.png''))
        (JStr ''http://img.example/a.png'') ''images/ship_1.png''
       = (True, world_with_image)
   \<and> events world_with_image = []"
  using existing_path_skips_download
    [of "JStr ''http://img.example/a.png''" world_with_image "''images/ship_1.png''" offline_env]
  by (simp add: path_exists_def world_with_image_def)

section \<open>Properties of the partitioner\<close>

lemma process_ship_bad_tier:
  assumes "case coerce_tier (resolve_tier d) of None \<Rightarrow> True | Some n \<Rightarrow> n < 1 \<or> 10 < n"
  shows "process_ship en dl (sid, JObj d) ts w = (Inr ts, w)"
  using assms by (auto simp: process_ship_def tier_rejected_def Let_def split: option.splits)

lemma classify_ships_skip:
  assumes "\<And>ts w. process_ship en dl item ts w = (Inr ts, w)"
  shows "classify_ships en dl (before @ item # after) ts w = classify_ships en dl (before @ after) ts w"
proof (induction before arbitrary: ts w)
  case Nil
  show ?case by (simp add: assms)
next
  case (Cons x xs)
  show ?case
  proof (cases "process_ship en dl x ts w")
    case (Pair r w1)
    then show ?thesis using Cons.IH by (cases r) simp_all
  qed
qed

text \<open>
  Claim C5. A record whose resolved tier (\<open>tier\<close>, else \<open>level\<close>) cannot be converted to an
  integer, or converts to an integer outside 1..10, is left out of every bucket whether
  or not it is eligible: the partitioner's result, buckets and world, is the one it gives on
  the cache without that record.
\<close>

theorem bad_tier_excluded:
  assumes "case coerce_tier (resolve_tier d) of None \<Rightarrow> True | Some n \<Rightarrow> n < 1 \<or> 10 < n"
  shows "build_tiers_and_images en w (JObj (before @ (sid, JObj d) # after)) dl
       = build_tiers_and_images en w (JObj (before @ after)) dl"
proof -
  have "\<And>ts w. process_ship en dl (sid, JObj d) ts w = (Inr ts, w)"
    using assms by (rule process_ship_bad_tier)
  then have "classify_ships en dl (before @ (sid, JObj d) # after) empty_tiers w
           = classify_ships en dl (before @ after) empty_tiers w"
    by (rule classify_ships_skip)
  then show ?thesis by (simp add: build_tiers_and_images_def)
qed

lemma coerce_abc: "coerce_tier (resolve_tier abc_tier_record) = None"
  by (simp add: abc_tier_record_def coerce_tier_def resolve_tier_def dict_get_def int_of_string_def py_strip_def py_isspace_def
      parse_digits_def digit_of_def)

lemma coerce_11: "coerce_tier (resolve_tier level11_record) = Some 11"
  by (simp add: level11_record_def coerce_tier_def resolve_tier_def dict_get_def)

lemma upto_1_10: "[1..10] = [1, 2, 3, 4, 5, 6, 7, 8, 9, 10 :: int]"
  by code_simp

lemma empty_tiers_eq:
  "empty_tiers = [(1, []), (2, []), (3, []), (4, []), (5, []), (6, []), (7, []), (8, []), (9, []), (10, [])]"
  by (simp add: empty_tiers_def upto_1_10)


lemma classify_fletcher:
  "classify_ships en True [(''100'', JObj fletcher)] empty_tiers w
   = (Inr fletcher_tiers, log_event (Sleep REQUEST_DELAY) w)"
  by (simp add: fletcher_def process_ship_def coerce_tier_def resolve_tier_def dict_get_def tier_rejected_def
      is_buyable_or_researchable_def eligible_fields_def guess_image_url_from_shipdata_def url_from_fields_def
      url_from_images_def py_or_def ship_entry_def tiers_append_def bucket_add_def empty_tiers_eq fletcher_tiers_def Let_def)

lemma tier_paths:
  "map tier_path [1, 2, 3, 4, 5, 6, 7, 8, 9, 10] =
     [''tiers/tier_1.json'', ''tiers/tier_2.json'', ''tiers/tier_3.json'', ''tiers/tier_4.json'',
      ''tiers/tier_5.json'', ''tiers/tier_6.json'', ''tiers/tier_7.json'', ''tiers/tier_8.json'',
      ''tiers/tier_9.json'', ''tiers/tier_10.json'']"
  by (simp add: tier_path_def path_join_def TIERS_DIR_def dec_int_def dec_nat.simps)

lemma save_tiers_writable:
  assumes "\<And>p. can_write en p" "\<And>t. t \<in> set todo \<Longrightarrow> map_of ts t \<noteq> None"
    "\<And>t. t \<in> set todo \<Longrightarrow> files w (tier_path t) \<noteq> Some Dir"
  shows "fst (save_tiers en ts todo w) = Inr ()"
  using assms
proof (induction todo arbitrary: w)
  case Nil
  show ?case by simp
next
  case (Cons t rest)
  from Cons.prems(2) [of t] obtain bucket where b: "map_of ts t = Some bucket" by auto
  have dir: "files w (tier_path t) \<noteq> Some Dir" using Cons.prems(3) by simp
  let ?w1 = "w\<lparr>files := (files w)(tier_path t \<mapsto> Doc (JArr bucket))\<rparr>"
  have "fst (save_tiers en ts rest ?w1) = Inr ()"
  proof (rule Cons.IH)
    fix p show "can_write en p" by (rule Cons.prems(1))
  next
    fix t' assume "t' \<in> set rest" then show "map_of ts t' \<noteq> None" using Cons.prems(2) by simp
  next
    fix t' assume "t' \<in> set rest"
    then have "files w (tier_path t') \<noteq> Some Dir" using Cons.prems(3) by simp
    then show "files ?w1 (tier_path t') \<noteq> Some Dir" by simp
  qed
  then show ?case using b dir Cons.prems(1)
    by (simp add: save_json_def write_file_def)
qed

text \<open>
  Claim C8. The cache entry \<open>"100"\<close> with \<open>tier = 5\<close>, \<open>is_researchable = True\<close> and
  \<open>name = "Fletcher"\<close> yields exactly one summary, in bucket 5: identifier \<open>"100"\<close> (the cache
  key, as the record has no \<open>ship_id\<close>), name \<open>"Fletcher"\<close>, tier 5, type \<open>None\<close>, no image
  fields. The loop makes no request; the buckets are then written to the ten tier files,
  and are returned unless a write raises.
\<close>

theorem fletcher_in_tier_five:
  "classify_ships en True [(''100'', JObj fletcher)] empty_tiers w
     = (Inr fletcher_tiers, log_event (Sleep REQUEST_DELAY) w)
   \<and> build_tiers_and_images en w (JObj [(''100'', JObj fletcher)]) True
     = (case save_tiers en fletcher_tiers [1..10] (log_event (Sleep REQUEST_DELAY) w) of
          (Inl e, w2) \<Rightarrow> (Inl e, w2)
        | (Inr u, w2) \<Rightarrow> (Inr fletcher_tiers, w2))
   \<and> fst (build_tiers_and_images offline_env empty_world (JObj [(''100'', JObj fletcher)]) True) = Inr fletcher_tiers"
proof -
  have loop: "\<And>en w. classify_ships en True [(''100'', JObj fletcher)] empty_tiers w
     = (Inr fletcher_tiers, log_event (Sleep REQUEST_DELAY) w)"
    by (rule classify_fletcher)
  have build: "\<And>en w. build_tiers_and_images en w (JObj [(''100'', JObj fletcher)]) True
     = (case save_tiers en fletcher_tiers [1..10] (log_event (Sleep REQUEST_DELAY) w) of
          (Inl e, w2) \<Rightarrow> (Inl e, w2)
        | (Inr u, w2) \<Rightarrow> (Inr fletcher_tiers, w2))"
    unfolding build_tiers_and_images_def by (simp only: json.case loop prod.case sum.case)
  have "fst (save_tiers offline_env fletcher_tiers [1..10] (log_event (Sleep REQUEST_DELAY) empty_world)) = Inr ()"
    by (rule save_tiers_writable)
       (auto simp: offline_env_def fletcher_tiers_def upto_1_10 log_event_def empty_world_def)
  then have "fst (build_tiers_and_images offline_env empty_world (JObj [(''100'', JObj fletcher)]) True) = Inr fletcher_tiers"
    by (auto simp add: build split: prod.splits sum.splits)
  with loop build show ?thesis by simp
qed

lemma entry_without_image:
  "dict_pop (dict_set (dict_set (ship_entry sid d n) ''image_url'' v) ''image'' f) ''image''
   = ship_entry sid d n @ [(''image_url'', v)]"
  by (simp add: ship_entry_def dict_pop_def)

lemma entry_ship_id:
  "dict_index (dict_set (ship_entry sid d n) ''image_url'' v) ''ship_id''
   = Inr (py_or (dict_get d ''ship_id'') (JStr sid))"
  by (simp add: ship_entry_def dict_index_def)

lemma process_ship_failed_download:
  assumes tier: "coerce_tier (resolve_tier d) = Some n" "1 \<le> n" "n \<le> 10"
    and elig: "is_buyable_or_researchable (JObj d) = Inr True"
    and url: "guess_image_url_from_shipdata (JObj d) = Inr (JStr u)" "u \<noteq> []"
    and bucket: "map_of ts n = Some bucket"
    and outpath: "outpath = path_join IMAGES_DIR (image_fname en (py_or (dict_get d ''ship_id'') (JStr sid)) u)"
    and absent: "\<not> path_exists w outpath"
    and failed: "download_image en w (JStr u) outpath = (False, w1)"
  shows "process_ship en True (sid, JObj d) ts w
       = (Inr (bucket_add ts n (JObj (ship_entry sid d n @ [(''image_url'', JStr u)]))),
          log_event (Sleep REQUEST_DELAY) w1)"
proof -
  have rej: "\<not> tier_rejected (Some n)" using tier(2,3) by (simp add: tier_rejected_def)
  have att: "attach_image en True w (ship_entry sid d n) (JStr u)
           = (Inr (ship_entry sid d n @ [(''image_url'', JStr u)]), w1)"
    using absent failed outpath
    by (simp add: attach_image_def entry_ship_id entry_without_image Let_def)
  show ?thesis
    using tier(1) rej elig url bucket
    by (simp add: process_ship_def att tiers_append_def Let_def)
qed


lemma build_empty_cache:
  "fst (build_tiers_and_images offline_env empty_world (JObj []) True) = Inr empty_tiers"
proof -
  have "fst (save_tiers offline_env empty_tiers [1..10] empty_world) = Inr ()"
    by (rule save_tiers_writable) (auto simp: offline_env_def empty_tiers_eq upto_1_10 empty_world_def)
  then show ?thesis
    by (auto simp add: build_tiers_and_images_def split: prod.splits sum.splits)
qed

text \<open>
  Two researchable records, one with \<open>tier = "abc"\<close> and one with \<open>level = 11\<close>: next to an
  accepted ship they change nothing, and on their own they leave all ten buckets empty.
\<close>

theorem bad_tier_excluded_witness:
  "(case coerce_tier (resolve_tier abc_tier_record) of None \<Rightarrow> True | Some n \<Rightarrow> n < 1 \<or> 10 < n)
   \<and> (case coerce_tier (resolve_tier level11_record) of None \<Rightarrow> True | Some n \<Rightarrow> n < 1 \<or> 10 < n)
   \<and> is_buyable_or_researchable (JObj abc_tier_record) = Inr True
   \<and> is_buyable_or_researchable (JObj level11_record) = Inr True
   \<and> build_tiers_and_images offline_env empty_world
        (JObj ([(''100'', JObj fletcher)] @ (''7'', JObj abc_tier_record) # [(''8'', JObj level11_record)])) True
     = build_tiers_and_images offline_env empty_world (JObj [(''100'', JObj fletcher)]) True
   \<and> fst (build_tiers_and_images offline_env empty_world
        (JObj [(''7'', JObj abc_tier_record), (''8'', JObj level11_record)]) True) = Inr empty_tiers"
proof -
  have abc: "case coerce_tier (resolve_tier abc_tier_record) of None \<Rightarrow> True | Some n \<Rightarrow> n < 1 \<or> 10 < n"
    by (simp add: coerce_abc)
  have l11: "case coerce_tier (resolve_tier level11_record) of None \<Rightarrow> True | Some n \<Rightarrow> n < 1 \<or> 10 < n"
    by (simp add: coerce_11)
  have e1: "is_buyable_or_researchable (JObj abc_tier_record) = Inr True"
    by (simp add: abc_tier_record_def is_buyable_or_researchable_def eligible_fields_def dict_get_def)
  have e2: "is_buyable_or_researchable (JObj level11_record) = Inr True"
    by (simp add: level11_record_def is_buyable_or_researchable_def eligible_fields_def dict_get_def)
  have s1: "build_tiers_and_images offline_env empty_world
        (JObj ([(''100'', JObj fletcher)] @ (''7'', JObj abc_tier_record) # [(''8'', JObj level11_record)])) True
     = build_tiers_and_images offline_env empty_world (JObj [(''100'', JObj fletcher)]) True"
    using bad_tier_excluded [OF abc, of offline_env empty_world "[(''100'', JObj fletcher)]" "''7''" "[(''8'', JObj level11_record)]" True]
      bad_tier_excluded [OF l11, of offline_env empty_world "[(''100'', JObj fletcher)]" "''8''" "[]" True]
    by simp
  have s2: "fst (build_tiers_and_images offline_env empty_world
        (JObj [(''7'', JObj abc_tier_record), (''8'', JObj level11_record)]) True) = Inr empty_tiers"
    using bad_tier_excluded [OF abc, of offline_env empty_world "[]" "''7''" "[(''8'', JObj level11_record)]" True]
      bad_tier_excluded [OF l11, of offline_env empty_world "[]" "''8''" "[]" True]
      build_empty_cache
    by simp
  from abc l11 e1 e2 s1 s2 show ?thesis by blast
qed

lemma fletcher_fname:
  "image_fname offline_env (JStr ''100'') fletcher_url = ''ship_100.png''"
  by (simp add: image_fname_def image_ext_def fletcher_url_def splitext_ext_def rfind_def Let_def)

lemma fletcher_download_fails:
  "download_image offline_env empty_world (JStr fletcher_url) ''images/ship_100.png''
   = (False, log_event (Get (ImageUrl (JStr fletcher_url))) empty_world)"
  by (simp add: download_image_def download_attempt_def path_exists_def empty_world_def offline_env_def
      fletcher_url_def Let_def)


text \<open>
  Claim C3, amended. When a record passes the tier and eligibility tests, an image URL is
  found, the image file is not on disk and the download fails, the summary is still
  appended to the record's tier bucket with its four fields intact. Of the image fields
  only the local file name \<open>image\<close> is removed; \<open>image_url\<close> stays in the summary.
\<close>

theorem failed_download_keeps_record:
  assumes "coerce_tier (resolve_tier d) = Some n" "1 \<le> n" "n \<le> 10"
    and "is_buyable_or_researchable (JObj d) = Inr True"
    and "guess_image_url_from_shipdata (JObj d) = Inr (JStr u)" "u \<noteq> []"
    and "map_of ts n = Some bucket"
    and "outpath = path_join IMAGES_DIR (image_fname en (py_or (dict_get d ''ship_id'') (JStr sid)) u)"
    and "\<not> path_exists w outpath"
    and "download_image en w (JStr u) outpath = (False, w1)"
  shows "process_ship en True (sid, JObj d) ts w
       = (Inr (bucket_add ts n (JObj (ship_entry sid d n @ [(''image_url'', JStr u)]))),
          log_event (Sleep REQUEST_DELAY) w1)"
  using assms by (rule process_ship_failed_download)

lemma fletcher_image_facts:
  "coerce_tier (resolve_tier fletcher_with_image) = Some 5"
  "is_buyable_or_researchable (JObj fletcher_with_image) = Inr True"
  "guess_image_url_from_shipdata (JObj fletcher_with_image) = Inr (JStr fletcher_url)"
  "fletcher_url \<noteq> []"
  "map_of empty_tiers 5 = Some []"
  "''images/ship_100.png'' = path_join IMAGES_DIR
      (image_fname offline_env (py_or (dict_get fletcher_with_image ''ship_id'') (JStr ''100'')) fletcher_url)"
  "\<not> path_exists empty_world ''images/ship_100.png''"
  "ship_entry ''100'' fletcher_with_image 5 @ [(''image_url'', JStr fletcher_url)]
     = [(''ship_id'', JStr ''100''), (''name'', JStr ''Fletcher''), (''tier'', JInt 5),
        (''type'', JNull), (''image_url'', JStr fletcher_url)]"
proof -
  show "coerce_tier (resolve_tier fletcher_with_image) = Some 5"
    by (simp add: fletcher_with_image_def fletcher_def coerce_tier_def resolve_tier_def dict_get_def)
  show "is_buyable_or_researchable (JObj fletcher_with_image) = Inr True"
    by (simp add: fletcher_with_image_def fletcher_def is_buyable_or_researchable_def eligible_fields_def dict_get_def)
  show "guess_image_url_from_shipdata (JObj fletcher_with_image) = Inr (JStr fletcher_url)"
    by (simp add: fletcher_with_image_def fletcher_def guess_image_url_from_shipdata_def url_from_fields_def
        url_from_images_def dict_get_def fletcher_url_def)
  show "fletcher_url \<noteq> []" by (simp add: fletcher_url_def)
  show "map_of empty_tiers 5 = Some []" by (simp add: empty_tiers_eq)
  have "dict_get fletcher_with_image ''ship_id'' = JNull"
    by (simp add: fletcher_with_image_def fletcher_def dict_get_def)
  then show "''images/ship_100.png'' = path_join IMAGES_DIR
      (image_fname offline_env (py_or (dict_get fletcher_with_image ''ship_id'') (JStr ''100'')) fletcher_url)"
    by (simp add: py_or_def fletcher_fname path_join_def IMAGES_DIR_def)
  show "\<not> path_exists empty_world ''images/ship_100.png''"
    by (simp add: path_exists_def empty_world_def)
  show "ship_entry ''100'' fletcher_with_image 5 @ [(''image_url'', JStr fletcher_url)]
     = [(''ship_id'', JStr ''100''), (''name'', JStr ''Fletcher''), (''tier'', JInt 5),
        (''type'', JNull), (''image_url'', JStr fletcher_url)]"
    by (simp add: ship_entry_def fletcher_with_image_def fletcher_def dict_get_def py_or_def)
qed

lemma bucket_add_fletcher:
  "bucket_add empty_tiers 5 e
   = [(1, []), (2, []), (3, []), (4, []), (5, [e]), (6, []), (7, []), (8, []), (9, []), (10, [])]"
  by (simp add: bucket_add_def empty_tiers_eq)

text \<open>The Fletcher record with an image, classified without a network.\<close>

theorem failed_download_keeps_record_witness:
  "coerce_tier (resolve_tier fletcher_with_image) = Some 5 \<and> (1::int) \<le> 5 \<and> (5::int) \<le> 10
   \<and> is_buyable_or_researchable (JObj fletcher_with_image) = Inr True
   \<and> guess_image_url_from_shipdata (JObj fletcher_with_image) = Inr (JStr fletcher_url) \<and> fletcher_url \<noteq> []
   \<and> map_of empty_tiers 5 = Some []
   \<and> ''images/ship_100.png'' = path_join IMAGES_DIR
        (image_fname offline_env (py_or (dict_get fletcher_with_image ''ship_id'') (JStr ''100'')) fletcher_url)
   \<and> \<not> path_exists empty_world ''images/ship_100.png''
   \<and> download_image offline_env empty_world (JStr fletcher_url) ''images/ship_100.png''
       = (False, log_event (Get (ImageUrl (JStr fletcher_url))) empty_world)
   \<and> process_ship offline_env True (''100'', JObj fletcher_with_image) empty_tiers empty_world
       = (Inr (bucket_add empty_tiers 5
                 (JObj (ship_entry ''100'' fletcher_with_image 5 @ [(''image_url'', JStr fletcher_url)]))),
          log_event (Sleep REQUEST_DELAY) (log_event (Get (ImageUrl (JStr fletcher_url))) empty_world))"
  using failed_download_keeps_record
    [OF fletcher_image_facts(1) _ _ fletcher_image_facts(2,3,4,5,6,7) fletcher_download_fails]
    fletcher_image_facts fletcher_download_fails
  by simp

text \<open>
  Claim C3 says that both image fields are dropped. The download of the Fletcher image
  fails, and the summary in bucket 5 still carries \<open>image_url\<close>.
\<close>

theorem failed_download_keeps_image_url:
  "fst (download_image offline_env empty_world (JStr fletcher_url) ''images/ship_100.png'') = False
   \<and> fst (classify_ships offline_env True [(''100'', JObj fletcher_with_image)] empty_tiers empty_world)
     = Inr [(1, []), (2, []), (3, []), (4, []),
            (5, [JObj [(''ship_id'', JStr ''100''), (''name'', JStr ''Fletcher''), (''tier'', JInt 5),
                       (''type'', JNull), (''image_url'', JStr fletcher_url)]]),
            (6, []), (7, []), (8, []), (9, []), (10, [])]"
proof -
  have "process_ship offline_env True (''100'', JObj fletcher_with_image) empty_tiers empty_world
       = (Inr (bucket_add empty_tiers 5
                 (JObj (ship_entry ''100'' fletcher_with_image 5 @ [(''image_url'', JStr fletcher_url)]))),
          log_event (Sleep REQUEST_DELAY) (log_event (Get (ImageUrl (JStr fletcher_url))) empty_world))"
    by (rule process_ship_failed_download
         [OF fletcher_image_facts(1) _ _ fletcher_image_facts(2,3,4,5,6,7) fletcher_download_fails]) simp_all
  then show ?thesis
    by (simp add: fletcher_download_fails fletcher_image_facts(8) bucket_add_fletcher)
qed

section \<open>Properties of the cache rebuild\<close>

lemma fetch_pages_ok_step:
  assumes "page_reply en (events w) p = Inr (JObj body)"
    and "dict_get body ''status'' = JStr ''ok''"
    and "dict_get_default body ''data'' (JObj []) = JObj ships"
    and "dict_get_default body ''meta'' (JObj []) = JObj meta"
    and "dict_get_default meta ''page_total'' (JInt 1) = JInt page_total"
  shows "fetch_pages en p cache w =
     (if page_total \<le> p then Some (Inr (merge_page ships cache), log_event (Get (ShipsPage p)) w)
      else fetch_pages en (p + 1) (merge_page ships cache)
             (log_event (Sleep REQUEST_DELAY) (log_event (Get (ShipsPage p)) w)))"
  by (subst fetch_pages.simps) (simp add: get_ships_page_def assms)

lemma fetch_pages_remote_error:
  assumes "page_reply en (events w) p = Inr (JObj d)" and "dict_get d ''status'' \<noteq> JStr ''ok''"
  shows "fetch_pages en p cache w = Some (Inl (RuntimeError (JObj d)), log_event (Get (ShipsPage p)) w)"
  by (subst fetch_pages.simps) (simp add: get_ships_page_def assms)

lemma page_trace_upto:
  "p \<le> k \<Longrightarrow> page_trace [p..k] =
     (if p = k then [Get (ShipsPage p)] else Get (ShipsPage p) # Sleep REQUEST_DELAY # page_trace [p + 1..k])"
proof -
  assume pk: "p \<le> k"
  show ?thesis
  proof (cases "p = k")
    case True
    then show ?thesis by (simp add: upto_rec1 [of k k])
  next
    case False
    with pk have "p + 1 \<le> k" by simp
    then have "[p..k] = p # (p + 1) # [p + 1 + 1..k]"
      using pk by (simp add: upto_rec1 [of p k] upto_rec1 [of "p + 1" k])
    moreover have "[p + 1..k] = (p + 1) # [p + 1 + 1..k]"
      using \<open>p + 1 \<le> k\<close> by (simp add: upto_rec1 [of "p + 1" k])
    ultimately show ?thesis using False by simp
  qed
qed

lemma fetch_pages_run:
  assumes pages: "\<And>q hist. p \<le> q \<Longrightarrow> q \<le> k \<Longrightarrow>
      page_reply en hist q = Inr (JObj (body q))
      \<and> dict_get (body q) ''status'' = JStr ''ok''
      \<and> dict_get_default (body q) ''data'' (JObj []) = JObj (ships q)
      \<and> dict_get_default (body q) ''meta'' (JObj []) = JObj (meta q)
      \<and> dict_get_default (meta q) ''page_total'' (JInt 1) = JInt (page_total q)"
    and more: "\<And>q. p \<le> q \<Longrightarrow> q < k \<Longrightarrow> q < page_total q"
    and last: "page_total k \<le> k"
    and pk: "p \<le> k"
  shows "fetch_pages en p cache w =
     Some (Inr (fold merge_page (map ships [p..k]) cache), w\<lparr>events := events w @ page_trace [p..k]\<rparr>)"
  using assms
proof (induction "nat (k - p)" arbitrary: p cache w)
  case 0
  then have pk: "p = k" by simp
  have step: "fetch_pages en k cache w =
     (if page_total k \<le> k then Some (Inr (merge_page (ships k) cache), log_event (Get (ShipsPage k)) w)
      else fetch_pages en (k + 1) (merge_page (ships k) cache)
             (log_event (Sleep REQUEST_DELAY) (log_event (Get (ShipsPage k)) w)))"
    using "0.prems"(1) [of k "events w"] pk by (intro fetch_pages_ok_step) auto
  show ?case using step "0.prems"(3) pk by (simp add: log_event_def)
next
  case (Suc m)
  then have lt: "p < k" by simp
  have step: "fetch_pages en p cache w =
     (if page_total p \<le> p then Some (Inr (merge_page (ships p) cache), log_event (Get (ShipsPage p)) w)
      else fetch_pages en (p + 1) (merge_page (ships p) cache)
             (log_event (Sleep REQUEST_DELAY) (log_event (Get (ShipsPage p)) w)))"
    using Suc.prems(1) [of p "events w"] lt by (intro fetch_pages_ok_step) auto
  have notdone: "\<not> page_total p \<le> p" using Suc.prems(2) [of p] lt by simp
  let ?w1 = "log_event (Sleep REQUEST_DELAY) (log_event (Get (ShipsPage p)) w)"
  have rest: "fetch_pages en (p + 1) (merge_page (ships p) cache) ?w1 =
     Some (Inr (fold merge_page (map ships [p + 1..k]) (merge_page (ships p) cache)),
           ?w1\<lparr>events := events ?w1 @ page_trace [p + 1..k]\<rparr>)"
  proof (rule Suc.hyps(1))
    show "m = nat (k - (p + 1))" using Suc.hyps(2) by simp
  next
    fix q hist assume "p + 1 \<le> q" "q \<le> k"
    then show "page_reply en hist q = Inr (JObj (body q))
      \<and> dict_get (body q) ''status'' = JStr ''ok''
      \<and> dict_get_default (body q) ''data'' (JObj []) = JObj (ships q)
      \<and> dict_get_default (body q) ''meta'' (JObj []) = JObj (meta q)
      \<and> dict_get_default (meta q) ''page_total'' (JInt 1) = JInt (page_total q)"
      using Suc.prems(1) [of q hist] by simp
  next
    fix q assume "p + 1 \<le> q" "q < k"
    then show "q < page_total q" using Suc.prems(2) [of q] by simp
  next
    show "page_total k \<le> k" by (rule Suc.prems(3))
  next
    show "p + 1 \<le> k" using lt by simp
  qed
  have upto: "[p..k] = p # [p + 1..k]" using lt by (simp add: upto_rec1 [of p k])
  have trace: "page_trace [p..k] = Get (ShipsPage p) # Sleep REQUEST_DELAY # page_trace [p + 1..k]"
    using page_trace_upto [of p k] lt by simp
  have cache_eq: "fold merge_page (map ships [p..k]) cache
      = fold merge_page (map ships [p + 1..k]) (merge_page (ships p) cache)"
    by (simp add: upto)
  show ?case
    using step notdone rest by (simp add: cache_eq trace log_event_def)
qed


lemma fetch_pages_run_error:
  assumes pages: "\<And>q hist. p \<le> q \<Longrightarrow> q < k \<Longrightarrow>
      page_reply en hist q = Inr (JObj (body q))
      \<and> dict_get (body q) ''status'' = JStr ''ok''
      \<and> dict_get_default (body q) ''data'' (JObj []) = JObj (ships q)
      \<and> dict_get_default (body q) ''meta'' (JObj []) = JObj (meta q)
      \<and> dict_get_default (meta q) ''page_total'' (JInt 1) = JInt (page_total q)
      \<and> q < page_total q"
    and bad: "\<And>hist. page_reply en hist k = Inr (JObj d)"
    and status: "dict_get d ''status'' \<noteq> JStr ''ok''"
    and pk: "p \<le> k"
  shows "fetch_pages en p cache w =
     Some (Inl (RuntimeError (JObj d)), w\<lparr>events := events w @ page_trace [p..k]\<rparr>)"
  using pages pk
proof (induction "nat (k - p)" arbitrary: p cache w)
  case 0
  then have pk: "p = k" by simp
  have "fetch_pages en k cache w = Some (Inl (RuntimeError (JObj d)), log_event (Get (ShipsPage k)) w)"
    using bad [of "events w"] status by (rule fetch_pages_remote_error)
  then show ?case using pk by (simp add: log_event_def)
next
  case (Suc m)
  then have lt: "p < k" by simp
  have facts: "page_reply en (events w) p = Inr (JObj (body p))
      \<and> dict_get (body p) ''status'' = JStr ''ok''
      \<and> dict_get_default (body p) ''data'' (JObj []) = JObj (ships p)
      \<and> dict_get_default (body p) ''meta'' (JObj []) = JObj (meta p)
      \<and> dict_get_default (meta p) ''page_total'' (JInt 1) = JInt (page_total p)
      \<and> p < page_total p"
    using Suc.prems(1) [of p "events w"] lt by simp
  have step: "fetch_pages en p cache w =
     (if page_total p \<le> p then Some (Inr (merge_page (ships p) cache), log_event (Get (ShipsPage p)) w)
      else fetch_pages en (p + 1) (merge_page (ships p) cache)
             (log_event (Sleep REQUEST_DELAY) (log_event (Get (ShipsPage p)) w)))"
    using facts by (intro fetch_pages_ok_step) auto
  have notdone: "\<not> page_total p \<le> p" using facts by simp
  let ?w1 = "log_event (Sleep REQUEST_DELAY) (log_event (Get (ShipsPage p)) w)"
  have rest: "fetch_pages en (p + 1) (merge_page (ships p) cache) ?w1 =
     Some (Inl (RuntimeError (JObj d)), ?w1\<lparr>events := events ?w1 @ page_trace [p + 1..k]\<rparr>)"
  proof (rule Suc.hyps(1))
    show "m = nat (k - (p + 1))" using Suc.hyps(2) by simp
  next
    fix q hist assume "p + 1 \<le> q" "q < k"
    then show "page_reply en hist q = Inr (JObj (body q))
      \<and> dict_get (body q) ''status'' = JStr ''ok''
      \<and> dict_get_default (body q) ''data'' (JObj []) = JObj (ships q)
      \<and> dict_get_default (body q) ''meta'' (JObj []) = JObj (meta q)
      \<and> dict_get_default (meta q) ''page_total'' (JInt 1) = JInt (page_total q)
      \<and> q < page_total q"
      using Suc.prems(1) [of q hist] by simp
  next
    show "p + 1 \<le> k" using lt by simp
  qed
  have trace: "page_trace [p..k] = Get (ShipsPage p) # Sleep REQUEST_DELAY # page_trace [p + 1..k]"
    using page_trace_upto [of p k] lt by simp
  show ?case
    using step notdone rest by (simp add: trace log_event_def)
qed

lemma keys_dict_set: "fst ` set (dict_set d k v) = insert k (fst ` set d)"
proof (induction d)
  case Nil
  show ?case by simp
next
  case (Cons x d)
  then show ?case by (cases x) auto
qed

lemma keys_merge_page: "fst ` set (merge_page ships c) = fst ` set c \<union> fst ` set ships"
  unfolding merge_page_def
proof (induction ships arbitrary: c)
  case Nil
  show ?case by simp
next
  case (Cons x xs)
  have "fst ` set (fold (\<lambda>kv c. dict_set c (fst kv) (snd kv)) xs (dict_set c (fst x) (snd x)))
      = fst ` set (dict_set c (fst x) (snd x)) \<union> fst ` set xs"
    by (rule Cons.IH)
  then show ?case by (simp add: keys_dict_set)
qed

lemma keys_fold_merge:
  "fst ` set (fold merge_page pages c) = fst ` set c \<union> (\<Union>ships\<in>set pages. fst ` set ships)"
proof (induction pages arbitrary: c)
  case Nil
  show ?case by simp
next
  case (Cons x xs)
  have "fst ` set (fold merge_page xs (merge_page x c))
      = fst ` set (merge_page x c) \<union> (\<Union>ships\<in>set xs. fst ` set ships)"
    by (rule Cons.IH)
  then show ?case by (simp add: keys_merge_page Un_assoc)
qed

lemma map_of_dict_set: "map_of (dict_set d k v) = (map_of d)(k \<mapsto> v)"
  by (induction d) auto

lemma map_of_merge_page: "map_of (merge_page ships c) = map_of c ++ map_of (rev ships)"
  unfolding merge_page_def
  by (induction ships arbitrary: c) (auto simp: map_of_dict_set map_add_def fun_eq_iff split: option.splits)


lemma map_of_fold_merge:
  "map_of (fold merge_page pages c) = foldl (++) (map_of c) (map (\<lambda>ships. map_of (rev ships)) pages)"
  by (induction pages arbitrary: c) (simp_all add: map_of_merge_page)

lemma distinct_dict_set: "distinct (map fst d) \<Longrightarrow> distinct (map fst (dict_set d k v))"
proof (induction d)
  case Nil
  show ?case by simp
next
  case (Cons x d)
  then show ?case using keys_dict_set [of d k v] by (cases x) (auto simp: image_iff)
qed

lemma distinct_merge_page: "distinct (map fst c) \<Longrightarrow> distinct (map fst (merge_page ships c))"
  unfolding merge_page_def by (induction ships arbitrary: c) (simp_all add: distinct_dict_set)

lemma distinct_fold_merge: "distinct (map fst c) \<Longrightarrow> distinct (map fst (fold merge_page pages c))"
  by (induction pages arbitrary: c) (simp_all add: distinct_merge_page)

lemma update_cache_full_run:
  assumes "\<And>q hist. 1 \<le> q \<Longrightarrow> q \<le> k \<Longrightarrow>
      page_reply en hist q = Inr (JObj (body q))
      \<and> dict_get (body q) ''status'' = JStr ''ok''
      \<and> dict_get_default (body q) ''data'' (JObj []) = JObj (ships q)
      \<and> dict_get_default (body q) ''meta'' (JObj []) = JObj (meta q)
      \<and> dict_get_default (meta q) ''page_total'' (JInt 1) = JInt (page_total q)"
    and "\<And>q. 1 \<le> q \<Longrightarrow> q < k \<Longrightarrow> q < page_total q"
    and "page_total k \<le> k"
    and "1 \<le> k"
    and "can_write en CACHE_FILE" and "files w CACHE_FILE \<noteq> Some Dir"
    and "cache = fold merge_page (map ships [1..k]) []"
  shows "update_cache_full en w =
           Some (Inr cache, w\<lparr>files := (files w)(CACHE_FILE \<mapsto> Doc (JObj cache)),
                               events := events w @ page_trace [1..k]\<rparr>)"
proof -
  have run: "fetch_pages en 1 [] w =
     Some (Inr (fold merge_page (map ships [1..k]) []), w\<lparr>events := events w @ page_trace [1..k]\<rparr>)"
    using assms(1-4) by (rule fetch_pages_run)
  show ?thesis
    using run assms(5,6)
    by (simp add: update_cache_full_def save_json_def write_file_def assms(7))
qed

text \<open>
  Claim C4. \<open>update_cache_full\<close> starts at page 1 and stops at the first page \<open>k\<close> whose number
  is at least the \<open>page_total\<close> that page reports. If pages 1..k answer with status \<open>"ok"\<close>,
  every page before \<open>k\<close> reports a larger total and page \<open>k\<close> does not, and the cache file can
  be written, then the run ends: it requests exactly the pages 1..k in order, pausing
  between two requests, and returns and saves one mapping. In that mapping every
  identifier occurs once, its record is the one of the last page (and the last entry on
  that page) that carries the identifier, and the identifiers are those of all the pages.
\<close>

theorem rebuild_pages_until_total:
  assumes "\<And>q hist. 1 \<le> q \<Longrightarrow> q \<le> k \<Longrightarrow>
      page_reply en hist q = Inr (JObj (body q))
      \<and> dict_get (body q) ''status'' = JStr ''ok''
      \<and> dict_get_default (body q) ''data'' (JObj []) = JObj (ships q)
      \<and> dict_get_default (body q) ''meta'' (JObj []) = JObj (meta q)
      \<and> dict_get_default (meta q) ''page_total'' (JInt 1) = JInt (page_total q)"
    and "\<And>q. 1 \<le> q \<Longrightarrow> q < k \<Longrightarrow> q < page_total q"
    and "page_total k \<le> k"
    and "1 \<le> k"
    and "can_write en CACHE_FILE" and "files w CACHE_FILE \<noteq> Some Dir"
    and "cache = fold merge_page (map ships [1..k]) []"
  shows "update_cache_full en w =
           Some (Inr cache, w\<lparr>files := (files w)(CACHE_FILE \<mapsto> Doc (JObj cache)),
                               events := events w @ page_trace [1..k]\<rparr>)
       \<and> distinct (map fst cache)
       \<and> map_of cache = foldl (++) Map.empty (map (\<lambda>q. map_of (rev (ships q))) [1..k])
       \<and> fst ` set cache = (\<Union>q\<in>{1..k}. fst ` set (ships q))"
proof -
  have run: "update_cache_full en w =
           Some (Inr cache, w\<lparr>files := (files w)(CACHE_FILE \<mapsto> Doc (JObj cache)),
                               events := events w @ page_trace [1..k]\<rparr>)"
    using assms by (rule update_cache_full_run)
  have single: "distinct (map fst cache)"
    unfolding assms(7) by (rule distinct_fold_merge) simp
  have lookup: "map_of cache = foldl (++) Map.empty (map (\<lambda>q. map_of (rev (ships q))) [1..k])"
    unfolding assms(7) by (simp add: map_of_fold_merge comp_def)
  have keys: "fst ` set cache = (\<Union>q\<in>{1..k}. fst ` set (ships q))"
    unfolding assms(7) by (simp add: keys_fold_merge)
  from run single lookup keys show ?thesis by simp
qed

lemma two_page_reply:
  "page_reply two_page_env hist q = Inr (JObj (catalog_body q))"
  by (simp add: page_reply_def two_page_env_def raise_for_status_def)

lemma catalog_body_fields:
  "dict_get (catalog_body q) ''status'' = JStr ''ok''"
  "dict_get_default (catalog_body q) ''data'' (JObj []) = JObj (catalog_page q)"
  "dict_get_default (catalog_body q) ''meta'' (JObj []) = JObj catalog_meta"
  "dict_get_default catalog_meta ''page_total'' (JInt 1) = JInt 2"
  by (simp_all add: catalog_body_def catalog_meta_def dict_get_def dict_get_default_def)

lemma upto_1_2: "[1..2] = [1, 2 :: int]"
  by code_simp

lemma catalog_cache_merged: "catalog_cache = fold merge_page (map catalog_page [1..2]) []"
  by (simp add: upto_1_2 merge_page_def catalog_page_def catalog_cache_def)

lemma two_page_rebuild:
  assumes "files w CACHE_FILE \<noteq> Some Dir"
  shows "update_cache_full two_page_env w =
           Some (Inr catalog_cache,
                 w\<lparr>files := (files w)(CACHE_FILE \<mapsto> Doc (JObj catalog_cache)),
                    events := events w @ [Get (ShipsPage 1), Sleep REQUEST_DELAY, Get (ShipsPage 2)]\<rparr>)"
proof -
  have pages: "\<And>q hist. 1 \<le> q \<Longrightarrow> q \<le> 2 \<Longrightarrow>
      page_reply two_page_env hist q = Inr (JObj (catalog_body q))
      \<and> dict_get (catalog_body q) ''status'' = JStr ''ok''
      \<and> dict_get_default (catalog_body q) ''data'' (JObj []) = JObj (catalog_page q)
      \<and> dict_get_default (catalog_body q) ''meta'' (JObj []) = JObj catalog_meta
      \<and> dict_get_default catalog_meta ''page_total'' (JInt 1) = JInt 2"
    by (simp add: two_page_reply catalog_body_fields)
  have more: "\<And>q::int. 1 \<le> q \<Longrightarrow> q < 2 \<Longrightarrow> q < 2" by simp
  have cw: "can_write two_page_env CACHE_FILE" by (simp add: two_page_env_def)
  show ?thesis
    using update_cache_full_run
      [of 2 two_page_env catalog_body catalog_page "\<lambda>q. catalog_meta" "\<lambda>q. 2" w catalog_cache,
       OF pages more _ _ cw assms catalog_cache_merged]
    by (simp add: upto_1_2)
qed

text \<open>
  A catalog of two pages that both report \<open>page_total = 2\<close>: two list calls with one pause
  between them. The cache holds the entries of both pages, identifier \<open>"100"\<close> once and with
  the record of the second page.
\<close>

theorem rebuild_pages_until_total_witness:
  "(\<forall>q hist. page_reply two_page_env hist q = Inr (JObj (catalog_body q))
      \<and> dict_get (catalog_body q) ''status'' = JStr ''ok''
      \<and> dict_get_default (catalog_body q) ''data'' (JObj []) = JObj (catalog_page q)
      \<and> dict_get_default (catalog_body q) ''meta'' (JObj []) = JObj catalog_meta)
   \<and> dict_get_default catalog_meta ''page_total'' (JInt 1) = JInt 2
   \<and> (1::int) < 2 \<and> (2::int) \<le> 2 \<and> (1::int) \<le> 2
   \<and> can_write two_page_env CACHE_FILE \<and> files empty_world CACHE_FILE \<noteq> Some Dir
   \<and> catalog_cache = fold merge_page (map catalog_page [1..2]) []
   \<and> update_cache_full two_page_env empty_world =
        Some (Inr catalog_cache,
              \<lparr>files = [CACHE_FILE \<mapsto> Doc (JObj catalog_cache)],
               events = [Get (ShipsPage 1), Sleep REQUEST_DELAY, Get (ShipsPage 2)]\<rparr>)
   \<and> distinct (map fst catalog_cache)
   \<and> map_of catalog_cache = map_of (rev (catalog_page 1)) ++ map_of (rev (catalog_page 2))
   \<and> map_of catalog_cache ''100''
       = Some (JObj [(''ship_id'', JInt 100), (''name'', JStr ''Fletcher II''), (''tier'', JInt 5),
                     (''is_researchable'', JBool True)])
   \<and> fst ` set catalog_cache = fst ` set (catalog_page 1) \<union> fst ` set (catalog_page 2)"
proof -
  have pages: "\<And>q hist. 1 \<le> q \<Longrightarrow> q \<le> 2 \<Longrightarrow>
      page_reply two_page_env hist q = Inr (JObj (catalog_body q))
      \<and> dict_get (catalog_body q) ''status'' = JStr ''ok''
      \<and> dict_get_default (catalog_body q) ''data'' (JObj []) = JObj (catalog_page q)
      \<and> dict_get_default (catalog_body q) ''meta'' (JObj []) = JObj catalog_meta
      \<and> dict_get_default catalog_meta ''page_total'' (JInt 1) = JInt 2"
    by (simp add: two_page_reply catalog_body_fields)
  have more: "\<And>q::int. 1 \<le> q \<Longrightarrow> q < 2 \<Longrightarrow> q < 2" by simp
  have cw: "can_write two_page_env CACHE_FILE" by (simp add: two_page_env_def)
  have nodir: "files empty_world CACHE_FILE \<noteq> Some Dir" by (simp add: empty_world_def)
  have hundred: "map_of catalog_cache ''100''
       = Some (JObj [(''ship_id'', JInt 100), (''name'', JStr ''Fletcher II''), (''tier'', JInt 5),
                     (''is_researchable'', JBool True)])"
    by (simp add: catalog_cache_def)
  have set12: "{1..2::int} = {1, 2}" by auto
  have res: "update_cache_full two_page_env empty_world =
        Some (Inr catalog_cache,
              \<lparr>files = [CACHE_FILE \<mapsto> Doc (JObj catalog_cache)],
               events = [Get (ShipsPage 1), Sleep REQUEST_DELAY, Get (ShipsPage 2)]\<rparr>)
   \<and> distinct (map fst catalog_cache)
   \<and> map_of catalog_cache = map_of (rev (catalog_page 1)) ++ map_of (rev (catalog_page 2))
   \<and> fst ` set catalog_cache = fst ` set (catalog_page 1) \<union> fst ` set (catalog_page 2)"
    using rebuild_pages_until_total
      [of 2 two_page_env catalog_body catalog_page "\<lambda>q. catalog_meta" "\<lambda>q. 2" empty_world
          catalog_cache, OF pages more _ _ cw nodir catalog_cache_merged]
    by (simp add: upto_1_2 set12 empty_world_def)
  show ?thesis
    using cw nodir res hundred catalog_cache_merged [symmetric]
    by (simp add: two_page_reply catalog_body_fields)
qed

lemma update_cache_full_remote_error:
  assumes "\<And>q hist. 1 \<le> q \<Longrightarrow> q < k \<Longrightarrow>
      page_reply en hist q = Inr (JObj (body q))
      \<and> dict_get (body q) ''status'' = JStr ''ok''
      \<and> dict_get_default (body q) ''data'' (JObj []) = JObj (ships q)
      \<and> dict_get_default (body q) ''meta'' (JObj []) = JObj (meta q)
      \<and> dict_get_default (meta q) ''page_total'' (JInt 1) = JInt (page_total q)
      \<and> q < page_total q"
    and "\<And>hist. page_reply en hist k = Inr (JObj d)"
    and "dict_get d ''status'' \<noteq> JStr ''ok''"
    and "1 \<le> k"
  shows "update_cache_full en w =
           Some (Inl (RuntimeError (JObj d)), w\<lparr>events := events w @ page_trace [1..k]\<rparr>)"
proof -
  have "fetch_pages en 1 [] w =
     Some (Inl (RuntimeError (JObj d)), w\<lparr>events := events w @ page_trace [1..k]\<rparr>)"
    using assms by (rule fetch_pages_run_error)
  then show ?thesis by (simp add: update_cache_full_def)
qed

lemma fetch_and_save_ship_not_ok:
  assumes "ensure_dir en w OUTPUT_DIR = Inr w1"
    and "\<not> path_exists w1 (path_join OUTPUT_DIR (py_str (repr_other en) ship_name @ ''.json''))"
    and "requests_get en (events w1) (ShipDetail ship_id) = Inr r"
    and "json_body r = Some (JObj d)"
    and "dict_get d ''status'' \<noteq> JStr ''ok''"
  shows "fetch_and_save_ship en w ship_name ship_id = (Inr (), log_event (Get (ShipDetail ship_id)) w1)"
  using assms by (simp add: fetch_and_save_ship_def fetch_detail_def Let_def)

text \<open>
  Claim C7, amended. When the response of a list call has a status other than \<open>"ok"\<close>, the
  rebuild loop raises \<open>RuntimeError\<close> with the response in its message, at whatever page it
  is. So whenever the pages before page \<open>k\<close> are in order and ask for more, and page \<open>k\<close>
  answers with such a status, \<open>update_cache_full\<close> ends with that error after requesting
  pages 1..k, and no file has changed. The detail fetch of get.py does not raise on such a
  response: it returns normally to its caller after the one request, without writing the
  ship's file.
\<close>

theorem non_ok_status_list_raises_detail_returns:
  "(page_reply en (events w) page = Inr (JObj d) \<and> dict_get d ''status'' \<noteq> JStr ''ok'' \<longrightarrow>
      fetch_pages en page cache w = Some (Inl (RuntimeError (JObj d)), log_event (Get (ShipsPage page)) w))
   \<and> (1 \<le> k
       \<and> (\<forall>q hist. 1 \<le> q \<and> q < k \<longrightarrow>
            page_reply en hist q = Inr (JObj (body q))
            \<and> dict_get (body q) ''status'' = JStr ''ok''
            \<and> dict_get_default (body q) ''data'' (JObj []) = JObj (ships q)
            \<and> dict_get_default (body q) ''meta'' (JObj []) = JObj (meta q)
            \<and> dict_get_default (meta q) ''page_total'' (JInt 1) = JInt (page_total q)
            \<and> q < page_total q)
       \<and> (\<forall>hist. page_reply en hist k = Inr (JObj d))
       \<and> dict_get d ''status'' \<noteq> JStr ''ok'' \<longrightarrow>
      update_cache_full en w =
        Some (Inl (RuntimeError (JObj d)), w\<lparr>events := events w @ page_trace [1..k]\<rparr>))
   \<and> (ensure_dir en w OUTPUT_DIR = Inr w1
       \<and> \<not> path_exists w1 (path_join OUTPUT_DIR (py_str (repr_other en) ship_name @ ''.json''))
       \<and> requests_get en (events w1) (ShipDetail ship_id) = Inr r
       \<and> json_body r = Some (JObj d) \<and> dict_get d ''status'' \<noteq> JStr ''ok'' \<longrightarrow>
      fetch_and_save_ship en w ship_name ship_id = (Inr (), log_event (Get (ShipDetail ship_id)) w1))"
proof (intro conjI impI)
  assume "page_reply en (events w) page = Inr (JObj d) \<and> dict_get d ''status'' \<noteq> JStr ''ok''"
  then show "fetch_pages en page cache w = Some (Inl (RuntimeError (JObj d)), log_event (Get (ShipsPage page)) w)"
    by (simp add: fetch_pages_remote_error)
next
  assume a: "1 \<le> k
       \<and> (\<forall>q hist. 1 \<le> q \<and> q < k \<longrightarrow>
            page_reply en hist q = Inr (JObj (body q))
            \<and> dict_get (body q) ''status'' = JStr ''ok''
            \<and> dict_get_default (body q) ''data'' (JObj []) = JObj (ships q)
            \<and> dict_get_default (body q) ''meta'' (JObj []) = JObj (meta q)
            \<and> dict_get_default (meta q) ''page_total'' (JInt 1) = JInt (page_total q)
            \<and> q < page_total q)
       \<and> (\<forall>hist. page_reply en hist k = Inr (JObj d))
       \<and> dict_get d ''status'' \<noteq> JStr ''ok''"
  show "update_cache_full en w =
        Some (Inl (RuntimeError (JObj d)), w\<lparr>events := events w @ page_trace [1..k]\<rparr>)"
  proof (rule update_cache_full_remote_error)
    fix q hist assume "1 \<le> q" "q < k"
    then show "page_reply en hist q = Inr (JObj (body q))
            \<and> dict_get (body q) ''status'' = JStr ''ok''
            \<and> dict_get_default (body q) ''data'' (JObj []) = JObj (ships q)
            \<and> dict_get_default (body q) ''meta'' (JObj []) = JObj (meta q)
            \<and> dict_get_default (meta q) ''page_total'' (JInt 1) = JInt (page_total q)
            \<and> q < page_total q"
      using a by blast
  next
    fix hist show "page_reply en hist k = Inr (JObj d)" using a by blast
  next
    show "dict_get d ''status'' \<noteq> JStr ''ok''" using a by blast
  next
    show "1 \<le> k" using a by blast
  qed
next
  assume "ensure_dir en w OUTPUT_DIR = Inr w1
       \<and> \<not> path_exists w1 (path_join OUTPUT_DIR (py_str (repr_other en) ship_name @ ''.json''))
       \<and> requests_get en (events w1) (ShipDetail ship_id) = Inr r
       \<and> json_body r = Some (JObj d) \<and> dict_get d ''status'' \<noteq> JStr ''ok''"
  then show "fetch_and_save_ship en w ship_name ship_id = (Inr (), log_event (Get (ShipDetail ship_id)) w1)"
    by (simp add: fetch_and_save_ship_not_ok)
qed

lemma refusing_facts:
  "page_reply refusing_env hist q = Inr (JObj error_body)"
  "dict_get error_body ''status'' \<noteq> JStr ''ok''"
  "requests_get refusing_env hist req = Inr \<lparr>status_code = 200, json_body = Some (JObj error_body), chunks = [], stream_ok = True\<rparr>"
  by (simp_all add: page_reply_def refusing_env_def raise_for_status_def error_body_def dict_get_def)

lemma refusing_ensure_dir:
  "ensure_dir refusing_env empty_world OUTPUT_DIR = Inr \<lparr>files = [OUTPUT_DIR \<mapsto> Dir], events = []\<rparr>"
  by (simp add: ensure_dir_def path_exists_def empty_world_def refusing_env_def)

lemma yamato_path:
  "path_join OUTPUT_DIR (py_str (repr_other refusing_env) (JStr ''Yamato'') @ ''.json'') = ''ships_data/Yamato.json''"
  by (simp add: path_join_def OUTPUT_DIR_def)

lemma yamato_absent:
  "\<not> path_exists \<lparr>files = [OUTPUT_DIR \<mapsto> Dir], events = []\<rparr>
         (path_join OUTPUT_DIR (py_str (repr_other refusing_env) (JStr ''Yamato'') @ ''.json''))"
  by (simp add: path_exists_def path_join_def OUTPUT_DIR_def)

lemma yamato_not_saved:
  "fetch_and_save_ship refusing_env empty_world (JStr ''Yamato'') (JInt 4179605200)
       = (Inr (), \<lparr>files = [OUTPUT_DIR \<mapsto> Dir], events = [Get (ShipDetail (JInt 4179605200))]\<rparr>)"
  using yamato_absent
  by (simp add: fetch_and_save_ship_def fetch_detail_def refusing_ensure_dir refusing_facts log_event_def Let_def)

lemma late_error_replies:
  "page_reply late_error_env hist 1 = Inr (JObj (catalog_body 1))"
  "page_reply late_error_env hist 2 = Inr (JObj error_body)"
  by (simp_all add: page_reply_def late_error_env_def raise_for_status_def)

text \<open>
  A server that answers \<open>status = "error"\<close> to the list call and to the detail call, and a
  server whose second page is the error document.
\<close>

theorem non_ok_status_list_raises_detail_returns_witness:
  "page_reply refusing_env (events empty_world) 1 = Inr (JObj error_body)
   \<and> dict_get error_body ''status'' \<noteq> JStr ''ok''
   \<and> fetch_pages refusing_env 1 [] empty_world
       = Some (Inl (RuntimeError (JObj error_body)), log_event (Get (ShipsPage 1)) empty_world)
   \<and> (1::int) \<le> 2
   \<and> (\<forall>hist. page_reply late_error_env hist 1 = Inr (JObj (catalog_body 1)))
   \<and> dict_get (catalog_body 1) ''status'' = JStr ''ok''
   \<and> dict_get_default (catalog_body 1) ''data'' (JObj []) = JObj (catalog_page 1)
   \<and> dict_get_default (catalog_body 1) ''meta'' (JObj []) = JObj catalog_meta
   \<and> dict_get_default catalog_meta ''page_total'' (JInt 1) = JInt 2
   \<and> (1::int) < 2
   \<and> (\<forall>hist. page_reply late_error_env hist 2 = Inr (JObj error_body))
   \<and> update_cache_full late_error_env empty_world
       = Some (Inl (RuntimeError (JObj error_body)),
               \<lparr>files = Map.empty, events = [Get (ShipsPage 1), Sleep REQUEST_DELAY, Get (ShipsPage 2)]\<rparr>)
   \<and> ensure_dir refusing_env empty_world OUTPUT_DIR = Inr \<lparr>files = [OUTPUT_DIR \<mapsto> Dir], events = []\<rparr>
   \<and> \<not> path_exists \<lparr>files = [OUTPUT_DIR \<mapsto> Dir], events = []\<rparr>
         (path_join OUTPUT_DIR (py_str (repr_other refusing_env) (JStr ''Yamato'') @ ''.json''))
   \<and> requests_get refusing_env (events \<lparr>files = [OUTPUT_DIR \<mapsto> Dir], events = []\<rparr>) (ShipDetail (JInt 4179605200))
       = Inr \<lparr>status_code = 200, json_body = Some (JObj error_body), chunks = [], stream_ok = True\<rparr>
   \<and> fetch_and_save_ship refusing_env empty_world (JStr ''Yamato'') (JInt 4179605200)
       = (Inr (), \<lparr>files = [OUTPUT_DIR \<mapsto> Dir], events = [Get (ShipDetail (JInt 4179605200))]\<rparr>)"
proof -
  have first: "fetch_pages refusing_env 1 [] empty_world
       = Some (Inl (RuntimeError (JObj error_body)), log_event (Get (ShipsPage 1)) empty_world)"
    and detail: "fetch_and_save_ship refusing_env empty_world (JStr ''Yamato'') (JInt 4179605200)
       = (Inr (), \<lparr>files = [OUTPUT_DIR \<mapsto> Dir], events = [Get (ShipDetail (JInt 4179605200))]\<rparr>)"
    using non_ok_status_list_raises_detail_returns
      [of refusing_env empty_world 1 error_body "[]" 1 "\<lambda>q. []" "\<lambda>q. []" "\<lambda>q. []" "\<lambda>q. 0"
          "\<lparr>files = [OUTPUT_DIR \<mapsto> Dir], events = []\<rparr>"
          "JStr ''Yamato''" "JInt 4179605200"
          "\<lparr>status_code = 200, json_body = Some (JObj error_body), chunks = [], stream_ok = True\<rparr>"]
      yamato_absent
    by (simp_all add: refusing_facts refusing_ensure_dir log_event_def)
  have earlier: "\<forall>q hist. 1 \<le> q \<and> q < 2 \<longrightarrow>
            page_reply late_error_env hist q = Inr (JObj (catalog_body q))
            \<and> dict_get (catalog_body q) ''status'' = JStr ''ok''
            \<and> dict_get_default (catalog_body q) ''data'' (JObj []) = JObj (catalog_page q)
            \<and> dict_get_default (catalog_body q) ''meta'' (JObj []) = JObj catalog_meta
            \<and> dict_get_default catalog_meta ''page_total'' (JInt 1) = JInt 2
            \<and> q < 2"
  proof (intro allI impI)
    fix q :: int and hist assume "1 \<le> q \<and> q < 2"
    then have "q = 1" by simp
    then show "page_reply late_error_env hist q = Inr (JObj (catalog_body q))
            \<and> dict_get (catalog_body q) ''status'' = JStr ''ok''
            \<and> dict_get_default (catalog_body q) ''data'' (JObj []) = JObj (catalog_page q)
            \<and> dict_get_default (catalog_body q) ''meta'' (JObj []) = JObj catalog_meta
            \<and> dict_get_default catalog_meta ''page_total'' (JInt 1) = JInt 2
            \<and> q < 2"
      by (simp add: late_error_replies catalog_body_fields)
  qed
  have late: "update_cache_full late_error_env empty_world
       = Some (Inl (RuntimeError (JObj error_body)),
               \<lparr>files = Map.empty, events = [Get (ShipsPage 1), Sleep REQUEST_DELAY, Get (ShipsPage 2)]\<rparr>)"
    using non_ok_status_list_raises_detail_returns
      [of late_error_env empty_world 1 error_body "[]" 2 catalog_body catalog_page "\<lambda>q. catalog_meta" "\<lambda>q. 2"
          empty_world "JStr ''Yamato''" "JInt 4179605200"
          "\<lparr>status_code = 200, json_body = Some (JObj error_body), chunks = [], stream_ok = True\<rparr>"]
      earlier
    by (simp add: late_error_replies refusing_facts(2) upto_1_2 empty_world_def)
  show ?thesis
    using first detail late yamato_absent
    by (simp add: refusing_facts refusing_ensure_dir late_error_replies catalog_body_fields)
qed

text \<open>
  Claim C7 says that the detail fetch surfaces an error to its caller. On the error
  document the call returns normally, as it does after a successful fetch.
\<close>

theorem detail_fetch_returns_normally:
  "requests_get refusing_env [] (ShipDetail (JInt 4179605200))
       = Inr \<lparr>status_code = 200, json_body = Some (JObj error_body), chunks = [], stream_ok = True\<rparr>
   \<and> dict_get error_body ''status'' = JStr ''error''
   \<and> fetch_and_save_ship refusing_env empty_world (JStr ''Yamato'') (JInt 4179605200)
       = (Inr (), \<lparr>files = [OUTPUT_DIR \<mapsto> Dir], events = [Get (ShipDetail (JInt 4179605200))]\<rparr>)"
  by (simp add: yamato_not_saved refusing_facts) (simp add: error_body_def dict_get_def)

section \<open>Properties of the cache check in main\<close>

lemma any_has_ship_id_containers:
  assumes "list_all is_container vs"
  shows "any_has_ship_id vs = Inr (list_ex (\<lambda>v. has_ship_id v = Inr True) vs)"
  using assms
proof (induction vs)
  case Nil
  show ?case by simp
next
  case (Cons v vs)
  then have IH: "any_has_ship_id vs = Inr (list_ex (\<lambda>v. has_ship_id v = Inr True) vs)" by simp
  from Cons.prems have "is_container v" by simp
  then show ?case by (cases v) (simp_all add: IH)
qed

lemma cache_needs_update_containers:
  assumes "list_all is_container (dict_values d)"
  shows "cache_needs_update (JObj d) = Inr (\<not> list_ex (\<lambda>v. has_ship_id v = Inr True) (dict_values d))"
  by (simp add: cache_needs_update_def any_has_ship_id_containers [OF assms])

lemma cache_needs_update_other: "\<not> is_dict c \<Longrightarrow> cache_needs_update c = Inr True"
  by (cases c) (simp_all add: cache_needs_update_def)

lemma main_unfold:
  "ensure_dirs en w = Inr w1 \<Longrightarrow>
   main en w =
     (case load_or_update_cache en w1 False of
        None \<Rightarrow> None
      | Some (Inl e, w2) \<Rightarrow> Some (Inl e, w2)
      | Some (Inr cache, w2) \<Rightarrow>
          (case cache_needs_update cache of
             Inl e \<Rightarrow> Some (Inl e, w2)
           | Inr stale \<Rightarrow>
               if stale then
                 (case update_cache_full en w2 of
                    None \<Rightarrow> None
                  | Some (Inl e, w3) \<Rightarrow> Some (Inl e, w3)
                  | Some (Inr fresh, w3) \<Rightarrow> Some (build_tiers_and_images en w3 (JObj fresh) True))
               else Some (build_tiers_and_images en w2 cache True)))"
  by (simp add: main_def API_KEY_def)

lemma load_absent:
  "files w1 CACHE_FILE = None \<or> files w1 CACHE_FILE = Some (Doc JNull) \<Longrightarrow>
   load_or_update_cache en w1 False = map_option (map_prod (map_sum id JObj) id) (update_cache_full en w1)"
  by (auto simp add: load_or_update_cache_def path_exists_def load_json_def)

lemma load_present:
  "files w1 CACHE_FILE = Some (Doc c) \<Longrightarrow> c \<noteq> JNull \<Longrightarrow>
   load_or_update_cache en w1 False = Some (Inr c, w1)"
  by (simp add: load_or_update_cache_def path_exists_def load_json_def)

text \<open>
  Claim C2, amended. After the directories are in place, \<open>main\<close> runs as follows. With no
  cache file, or one that holds \<open>null\<close>, it calls \<open>update_cache_full\<close> and goes on with the
  fresh cache. A loaded cache that is not a mapping makes it call \<open>update_cache_full\<close> and
  classify the fresh cache. A loaded mapping whose values are all dictionaries, lists or
  strings is classified as it is exactly when at least one value contains \<open>ship_id\<close>; when
  none does (the empty mapping included) \<open>main\<close> calls \<open>update_cache_full\<close> and classifies the
  fresh cache.
\<close>

theorem cache_validation_and_rebuild:
  assumes "ensure_dirs en w = Inr w1"
  shows "(files w1 CACHE_FILE = None \<or> files w1 CACHE_FILE = Some (Doc JNull) \<longrightarrow>
            main en w =
              (case update_cache_full en w1 of
                 None \<Rightarrow> None
               | Some (Inl e, w2) \<Rightarrow> Some (Inl e, w2)
               | Some (Inr fresh, w2) \<Rightarrow>
                   (case cache_needs_update (JObj fresh) of
                      Inl e \<Rightarrow> Some (Inl e, w2)
                    | Inr stale \<Rightarrow>
                        if stale then
                          (case update_cache_full en w2 of
                             None \<Rightarrow> None
                           | Some (Inl e, w3) \<Rightarrow> Some (Inl e, w3)
                           | Some (Inr again, w3) \<Rightarrow> Some (build_tiers_and_images en w3 (JObj again) True))
                        else Some (build_tiers_and_images en w2 (JObj fresh) True))))
       \<and> (files w1 CACHE_FILE = Some (Doc c) \<and> c \<noteq> JNull \<and> \<not> is_dict c \<longrightarrow>
            main en w =
              (case update_cache_full en w1 of
                 None \<Rightarrow> None
               | Some (Inl e, w2) \<Rightarrow> Some (Inl e, w2)
               | Some (Inr fresh, w2) \<Rightarrow> Some (build_tiers_and_images en w2 (JObj fresh) True)))
       \<and> (files w1 CACHE_FILE = Some (Doc (JObj d)) \<and> list_all is_container (dict_values d) \<longrightarrow>
            main en w =
              (if list_ex (\<lambda>v. has_ship_id v = Inr True) (dict_values d)
               then Some (build_tiers_and_images en w1 (JObj d) True)
               else
                 (case update_cache_full en w1 of
                    None \<Rightarrow> None
                  | Some (Inl e, w2) \<Rightarrow> Some (Inl e, w2)
                  | Some (Inr fresh, w2) \<Rightarrow> Some (build_tiers_and_images en w2 (JObj fresh) True))))"
proof (intro conjI impI)
  assume "files w1 CACHE_FILE = None \<or> files w1 CACHE_FILE = Some (Doc JNull)"
  then have "load_or_update_cache en w1 False
      = map_option (map_prod (map_sum id JObj) id) (update_cache_full en w1)"
    by (rule load_absent)
  then show "main en w =
              (case update_cache_full en w1 of
                 None \<Rightarrow> None
               | Some (Inl e, w2) \<Rightarrow> Some (Inl e, w2)
               | Some (Inr fresh, w2) \<Rightarrow>
                   (case cache_needs_update (JObj fresh) of
                      Inl e \<Rightarrow> Some (Inl e, w2)
                    | Inr stale \<Rightarrow>
                        if stale then
                          (case update_cache_full en w2 of
                             None \<Rightarrow> None
                           | Some (Inl e, w3) \<Rightarrow> Some (Inl e, w3)
                           | Some (Inr again, w3) \<Rightarrow> Some (build_tiers_and_images en w3 (JObj again) True))
                        else Some (build_tiers_and_images en w2 (JObj fresh) True)))"
    by (simp add: main_unfold [OF assms] split: option.splits sum.splits prod.splits)
next
  assume "files w1 CACHE_FILE = Some (Doc c) \<and> c \<noteq> JNull \<and> \<not> is_dict c"
  then show "main en w =
              (case update_cache_full en w1 of
                 None \<Rightarrow> None
               | Some (Inl e, w2) \<Rightarrow> Some (Inl e, w2)
               | Some (Inr fresh, w2) \<Rightarrow> Some (build_tiers_and_images en w2 (JObj fresh) True))"
    by (simp add: main_unfold [OF assms] load_present cache_needs_update_other)
next
  assume a: "files w1 CACHE_FILE = Some (Doc (JObj d)) \<and> list_all is_container (dict_values d)"
  then have "cache_needs_update (JObj d) = Inr (\<not> list_ex (\<lambda>v. has_ship_id v = Inr True) (dict_values d))"
    by (simp add: cache_needs_update_containers)
  with a show "main en w =
              (if list_ex (\<lambda>v. has_ship_id v = Inr True) (dict_values d)
               then Some (build_tiers_and_images en w1 (JObj d) True)
               else
                 (case update_cache_full en w1 of
                    None \<Rightarrow> None
                  | Some (Inl e, w2) \<Rightarrow> Some (Inl e, w2)
                  | Some (Inr fresh, w2) \<Rightarrow> Some (build_tiers_and_images en w2 (JObj fresh) True)))"
    by (simp add: main_unfold [OF assms] load_present)
qed

lemma dirs_exist:
  "ensure_dirs en world_without_cache = Inr world_without_cache"
  "ensure_dirs en (world_with_cache c) = Inr (world_with_cache c)"
  by (simp_all add: ensure_dirs_def makedirs_exist_ok_def world_without_cache_def world_with_cache_def
      IMAGES_DIR_def TIERS_DIR_def CACHE_FILE_def)

lemma cache_file_facts:
  "files world_without_cache CACHE_FILE = None"
  "files (world_with_cache c) CACHE_FILE = Some (Doc c)"
  by (simp_all add: world_without_cache_def world_with_cache_def IMAGES_DIR_def TIERS_DIR_def CACHE_FILE_def)

lemma save_tiers_events: "events (snd (save_tiers en ts todo w)) = events w"
proof (induction todo arbitrary: w)
  case Nil
  show ?case by simp
next
  case (Cons t rest)
  show ?case
  proof (cases "map_of ts t")
    case None
    then show ?thesis by simp
  next
    case (Some bucket)
    show ?thesis
    proof (cases "save_json en w (tier_path t) (JArr bucket)")
      case (Inl e)
      with Some show ?thesis by simp
    next
      case (Inr w1)
      then have "events w1 = events w"
        by (auto simp: save_json_def write_file_def split: if_splits)
      with Some Inr Cons.IH [of w1] show ?thesis by simp
    qed
  qed
qed

lemma build_events:
  "events (snd (build_tiers_and_images en w (JObj items) True))
   = events (snd (classify_ships en True items empty_tiers w))"
proof (cases "classify_ships en True items empty_tiers w")
  case (Pair r w1)
  show ?thesis
  proof (cases r)
    case (Inl e)
    with Pair show ?thesis by (simp add: build_tiers_and_images_def)
  next
    case (Inr ts)
    have "events (snd (save_tiers en ts [1..10] w1)) = events w1" by (rule save_tiers_events)
    with Pair Inr show ?thesis
      by (auto simp add: build_tiers_and_images_def split: prod.splits sum.splits)
  qed
qed

lemma tier_path_plain:
  "tier_path t \<noteq> IMAGES_DIR" "tier_path t \<noteq> TIERS_DIR" "tier_path t \<noteq> CACHE_FILE"
  by (simp_all add: tier_path_def path_join_def TIERS_DIR_def IMAGES_DIR_def CACHE_FILE_def)

lemma classify_catalog:
  "classify_ships en True catalog_cache empty_tiers w
   = (Inr catalog_tiers, log_event (Sleep REQUEST_DELAY) (log_event (Sleep REQUEST_DELAY) w))"
  by (simp add: catalog_cache_def process_ship_def coerce_tier_def resolve_tier_def dict_get_def tier_rejected_def
      is_buyable_or_researchable_def eligible_fields_def guess_image_url_from_shipdata_def url_from_fields_def
      url_from_images_def py_or_def ship_entry_def tiers_append_def bucket_add_def empty_tiers_eq catalog_tiers_def Let_def)

lemma classify_mixed_events:
  "events (snd (classify_ships en True mixed_cache empty_tiers w)) = events w @ [Sleep REQUEST_DELAY]"
  by (simp add: mixed_cache_def fletcher_def process_ship_def coerce_tier_def resolve_tier_def dict_get_def
      tier_rejected_def is_buyable_or_researchable_def eligible_fields_def guess_image_url_from_shipdata_def
      url_from_fields_def url_from_images_def py_or_def ship_entry_def tiers_append_def bucket_add_def
      empty_tiers_eq log_event_def Let_def)

lemma catalog_build:
  assumes "\<And>t. files w (tier_path t) \<noteq> Some Dir"
  shows "fst (build_tiers_and_images two_page_env w (JObj catalog_cache) True) = Inr catalog_tiers"
    and "events (snd (build_tiers_and_images two_page_env w (JObj catalog_cache) True))
         = events w @ [Sleep REQUEST_DELAY, Sleep REQUEST_DELAY]"
proof -
  let ?w1 = "log_event (Sleep REQUEST_DELAY) (log_event (Sleep REQUEST_DELAY) w)"
  have "fst (save_tiers two_page_env catalog_tiers [1..10] ?w1) = Inr ()"
  proof (rule save_tiers_writable)
    fix p show "can_write two_page_env p" by (simp add: two_page_env_def)
  next
    fix t :: int assume "t \<in> set [1..10]"
    then show "map_of catalog_tiers t \<noteq> None" by (auto simp: catalog_tiers_def upto_1_10)
  next
    fix t :: int show "files ?w1 (tier_path t) \<noteq> Some Dir" using assms by (simp add: log_event_def)
  qed
  then show "fst (build_tiers_and_images two_page_env w (JObj catalog_cache) True) = Inr catalog_tiers"
    by (auto simp add: build_tiers_and_images_def classify_catalog split: prod.splits sum.splits)
  show "events (snd (build_tiers_and_images two_page_env w (JObj catalog_cache) True))
         = events w @ [Sleep REQUEST_DELAY, Sleep REQUEST_DELAY]"
    by (simp add: build_events classify_catalog log_event_def)
qed

lemma catalog_cache_accepted: "cache_needs_update (JObj catalog_cache) = Inr False"
  by (simp add: cache_needs_update_def catalog_cache_def dict_values_def)

lemma rebuilt_outcome:
  assumes "files w CACHE_FILE \<noteq> Some Dir" and "\<And>t. files w (tier_path t) \<noteq> Some Dir"
  shows "map_option fst
           (case update_cache_full two_page_env w of
              None \<Rightarrow> None
            | Some (Inl e, w2) \<Rightarrow> Some (Inl e, w2)
            | Some (Inr fresh, w2) \<Rightarrow> Some (build_tiers_and_images two_page_env w2 (JObj fresh) True))
         = Some (Inr catalog_tiers)"
    and "map_option (\<lambda>r. events (snd r))
           (case update_cache_full two_page_env w of
              None \<Rightarrow> None
            | Some (Inl e, w2) \<Rightarrow> Some (Inl e, w2)
            | Some (Inr fresh, w2) \<Rightarrow> Some (build_tiers_and_images two_page_env w2 (JObj fresh) True))
         = Some (events w @ [Get (ShipsPage 1), Sleep REQUEST_DELAY, Get (ShipsPage 2),
                             Sleep REQUEST_DELAY, Sleep REQUEST_DELAY])"
proof -
  let ?w2 = "w\<lparr>files := (files w)(CACHE_FILE \<mapsto> Doc (JObj catalog_cache)),
                events := events w @ [Get (ShipsPage 1), Sleep REQUEST_DELAY, Get (ShipsPage 2)]\<rparr>"
  have up: "update_cache_full two_page_env w = Some (Inr catalog_cache, ?w2)"
    using assms(1) by (rule two_page_rebuild)
  have nodir: "\<And>t. files ?w2 (tier_path t) \<noteq> Some Dir"
    using assms(2) by (simp add: tier_path_plain)
  show "map_option fst
           (case update_cache_full two_page_env w of
              None \<Rightarrow> None
            | Some (Inl e, w2) \<Rightarrow> Some (Inl e, w2)
            | Some (Inr fresh, w2) \<Rightarrow> Some (build_tiers_and_images two_page_env w2 (JObj fresh) True))
         = Some (Inr catalog_tiers)"
    using catalog_build(1) [of ?w2, OF nodir] by (simp add: up)
  show "map_option (\<lambda>r. events (snd r))
           (case update_cache_full two_page_env w of
              None \<Rightarrow> None
            | Some (Inl e, w2) \<Rightarrow> Some (Inl e, w2)
            | Some (Inr fresh, w2) \<Rightarrow> Some (build_tiers_and_images two_page_env w2 (JObj fresh) True))
         = Some (events w @ [Get (ShipsPage 1), Sleep REQUEST_DELAY, Get (ShipsPage 2),
                             Sleep REQUEST_DELAY, Sleep REQUEST_DELAY])"
    using catalog_build(2) [of ?w2, OF nodir] by (simp add: up)
qed

lemma first_run_outcome:
  assumes "files w CACHE_FILE \<noteq> Some Dir" and "\<And>t. files w (tier_path t) \<noteq> Some Dir"
  shows "(case update_cache_full two_page_env w of
            None \<Rightarrow> None
          | Some (Inl e, w2) \<Rightarrow> Some (Inl e, w2)
          | Some (Inr fresh, w2) \<Rightarrow>
              (case cache_needs_update (JObj fresh) of
                 Inl e \<Rightarrow> Some (Inl e, w2)
               | Inr stale \<Rightarrow>
                   if stale then
                     (case update_cache_full two_page_env w2 of
                        None \<Rightarrow> None
                      | Some (Inl e, w3) \<Rightarrow> Some (Inl e, w3)
                      | Some (Inr again, w3) \<Rightarrow> Some (build_tiers_and_images two_page_env w3 (JObj again) True))
                   else Some (build_tiers_and_images two_page_env w2 (JObj fresh) True)))
       = (case update_cache_full two_page_env w of
            None \<Rightarrow> None
          | Some (Inl e, w2) \<Rightarrow> Some (Inl e, w2)
          | Some (Inr fresh, w2) \<Rightarrow> Some (build_tiers_and_images two_page_env w2 (JObj fresh) True))"
  using two_page_rebuild [OF assms(1)] by (simp add: catalog_cache_accepted)

lemma example_worlds:
  "files world_without_cache CACHE_FILE \<noteq> Some Dir"
  "files (world_with_cache c) CACHE_FILE \<noteq> Some Dir"
  "files world_without_cache (tier_path t) \<noteq> Some Dir"
  "files (world_with_cache c) (tier_path t) \<noteq> Some Dir"
  "events world_without_cache = []"
  "events (world_with_cache c) = []"
  by (simp_all add: world_without_cache_def world_with_cache_def tier_path_plain)
     (simp_all add: IMAGES_DIR_def TIERS_DIR_def CACHE_FILE_def)

text \<open>
  Five runs against the two-page catalog: no cache file, a cache file holding \<open>null\<close>, one
  holding a list, and a cache without any \<open>ship_id\<close> all end with the buckets of the fresh
  catalog after the two list calls; the cache in which one of two records has a \<open>ship_id\<close>
  is classified as loaded, without a list call.
\<close>

theorem cache_validation_and_rebuild_witness:
  "ensure_dirs two_page_env world_without_cache = Inr world_without_cache
   \<and> files world_without_cache CACHE_FILE = None
   \<and> map_option fst (main two_page_env world_without_cache) = Some (Inr catalog_tiers)
   \<and> map_option (\<lambda>r. events (snd r)) (main two_page_env world_without_cache)
       = Some [Get (ShipsPage 1), Sleep REQUEST_DELAY, Get (ShipsPage 2), Sleep REQUEST_DELAY, Sleep REQUEST_DELAY]
   \<and> ensure_dirs two_page_env (world_with_cache JNull) = Inr (world_with_cache JNull)
   \<and> files (world_with_cache JNull) CACHE_FILE = Some (Doc JNull)
   \<and> map_option fst (main two_page_env (world_with_cache JNull)) = Some (Inr catalog_tiers)
   \<and> map_option (\<lambda>r. events (snd r)) (main two_page_env (world_with_cache JNull))
       = Some [Get (ShipsPage 1), Sleep REQUEST_DELAY, Get (ShipsPage 2), Sleep REQUEST_DELAY, Sleep REQUEST_DELAY]
   \<and> ensure_dirs two_page_env (world_with_cache (JArr [])) = Inr (world_with_cache (JArr []))
   \<and> files (world_with_cache (JArr [])) CACHE_FILE = Some (Doc (JArr [])) \<and> JArr [] \<noteq> JNull \<and> \<not> is_dict (JArr [])
   \<and> map_option fst (main two_page_env (world_with_cache (JArr []))) = Some (Inr catalog_tiers)
   \<and> map_option (\<lambda>r. events (snd r)) (main two_page_env (world_with_cache (JArr [])))
       = Some [Get (ShipsPage 1), Sleep REQUEST_DELAY, Get (ShipsPage 2), Sleep REQUEST_DELAY, Sleep REQUEST_DELAY]
   \<and> ensure_dirs two_page_env (world_with_cache (JObj nameless_cache)) = Inr (world_with_cache (JObj nameless_cache))
   \<and> files (world_with_cache (JObj nameless_cache)) CACHE_FILE = Some (Doc (JObj nameless_cache))
   \<and> list_all is_container (dict_values nameless_cache)
   \<and> \<not> list_ex (\<lambda>v. has_ship_id v = Inr True) (dict_values nameless_cache)
   \<and> map_option fst (main two_page_env (world_with_cache (JObj nameless_cache))) = Some (Inr catalog_tiers)
   \<and> map_option (\<lambda>r. events (snd r)) (main two_page_env (world_with_cache (JObj nameless_cache)))
       = Some [Get (ShipsPage 1), Sleep REQUEST_DELAY, Get (ShipsPage 2), Sleep REQUEST_DELAY, Sleep REQUEST_DELAY]
   \<and> ensure_dirs two_page_env (world_with_cache (JObj mixed_cache)) = Inr (world_with_cache (JObj mixed_cache))
   \<and> files (world_with_cache (JObj mixed_cache)) CACHE_FILE = Some (Doc (JObj mixed_cache))
   \<and> list_all is_container (dict_values mixed_cache)
   \<and> list_ex (\<lambda>v. has_ship_id v = Inr True) (dict_values mixed_cache)
   \<and> main two_page_env (world_with_cache (JObj mixed_cache))
       = Some (build_tiers_and_images two_page_env (world_with_cache (JObj mixed_cache)) (JObj mixed_cache) True)
   \<and> map_option (\<lambda>r. events (snd r)) (main two_page_env (world_with_cache (JObj mixed_cache)))
       = Some [Sleep REQUEST_DELAY]"
proof -
  have n1: "list_all is_container (dict_values nameless_cache)"
    and n2: "\<not> list_ex (\<lambda>v. has_ship_id v = Inr True) (dict_values nameless_cache)"
    by (simp_all add: nameless_cache_def dict_values_def is_substring_def)
  have m1: "list_all is_container (dict_values mixed_cache)"
    and m2: "list_ex (\<lambda>v. has_ship_id v = Inr True) (dict_values mixed_cache)"
    by (simp_all add: mixed_cache_def dict_values_def)
  have absent: "main two_page_env world_without_cache
      = (case update_cache_full two_page_env world_without_cache of
            None \<Rightarrow> None
          | Some (Inl e, w2) \<Rightarrow> Some (Inl e, w2)
          | Some (Inr fresh, w2) \<Rightarrow> Some (build_tiers_and_images two_page_env w2 (JObj fresh) True))"
    using cache_validation_and_rebuild [OF dirs_exist(1), of two_page_env "JArr []" "[]"]
    by (simp add: cache_file_facts first_run_outcome [OF example_worlds(1) example_worlds(3)])
  have null: "main two_page_env (world_with_cache JNull)
      = (case update_cache_full two_page_env (world_with_cache JNull) of
            None \<Rightarrow> None
          | Some (Inl e, w2) \<Rightarrow> Some (Inl e, w2)
          | Some (Inr fresh, w2) \<Rightarrow> Some (build_tiers_and_images two_page_env w2 (JObj fresh) True))"
    using cache_validation_and_rebuild [OF dirs_exist(2), of JNull two_page_env "JArr []" "[]"]
    by (simp add: cache_file_facts first_run_outcome [OF example_worlds(2) example_worlds(4)])
  have list: "main two_page_env (world_with_cache (JArr []))
      = (case update_cache_full two_page_env (world_with_cache (JArr [])) of
            None \<Rightarrow> None
          | Some (Inl e, w2) \<Rightarrow> Some (Inl e, w2)
          | Some (Inr fresh, w2) \<Rightarrow> Some (build_tiers_and_images two_page_env w2 (JObj fresh) True))"
    using cache_validation_and_rebuild [OF dirs_exist(2), of "JArr []" two_page_env "JArr []" "[]"]
    by (simp add: cache_file_facts)
  have nameless: "main two_page_env (world_with_cache (JObj nameless_cache))
      = (case update_cache_full two_page_env (world_with_cache (JObj nameless_cache)) of
            None \<Rightarrow> None
          | Some (Inl e, w2) \<Rightarrow> Some (Inl e, w2)
          | Some (Inr fresh, w2) \<Rightarrow> Some (build_tiers_and_images two_page_env w2 (JObj fresh) True))"
    using cache_validation_and_rebuild [OF dirs_exist(2), of "JObj nameless_cache" two_page_env "JArr []" nameless_cache]
      n1 n2
    by (simp add: cache_file_facts)
  have mixed: "main two_page_env (world_with_cache (JObj mixed_cache))
       = Some (build_tiers_and_images two_page_env (world_with_cache (JObj mixed_cache)) (JObj mixed_cache) True)"
    using cache_validation_and_rebuild [OF dirs_exist(2), of "JObj mixed_cache" two_page_env "JArr []" mixed_cache]
      m1 m2
    by (simp add: cache_file_facts)
  have mixed_events: "events (snd (build_tiers_and_images two_page_env (world_with_cache (JObj mixed_cache)) (JObj mixed_cache) True))
      = [Sleep REQUEST_DELAY]"
    by (simp add: build_events classify_mixed_events example_worlds)
  show ?thesis
    unfolding absent null list nameless mixed
    using rebuilt_outcome [OF example_worlds(1) example_worlds(3)]
      rebuilt_outcome [OF example_worlds(2) example_worlds(4), of JNull]
      rebuilt_outcome [OF example_worlds(2) example_worlds(4), of "JArr []"]
      rebuilt_outcome [OF example_worlds(2) example_worlds(4), of "JObj nameless_cache"]
      n1 n2 m1 m2 mixed_events
    by (simp add: dirs_exist cache_file_facts example_worlds)
qed

text \<open>
  Claim C2 says that a cache in which some value lacks an identifier is rebuilt. The cache
  below has such a value and is accepted: \<open>main\<close> classifies the loaded cache, without a
  rebuild.
\<close>

theorem cache_with_one_identifier_is_accepted:
  "has_ship_id (JObj [(''name'', JStr ''Yamato'')]) = Inr False
   \<and> JObj [(''name'', JStr ''Yamato'')] \<in> set (dict_values mixed_cache)
   \<and> cache_needs_update (JObj mixed_cache) = Inr False
   \<and> main offline_env (world_with_cache (JObj mixed_cache))
       = Some (build_tiers_and_images offline_env (world_with_cache (JObj mixed_cache)) (JObj mixed_cache) True)"
proof -
  have "cache_needs_update (JObj mixed_cache) = Inr False"
    by (simp add: cache_needs_update_def mixed_cache_def dict_values_def)
  then show ?thesis
    by (simp add: main_unfold [OF dirs_exist(2)] load_present cache_file_facts)
       (simp add: mixed_cache_def dict_values_def)
qed

end
